theory Spec2Isabelle
  imports Main "HOL-Library.Word" "HOL-Library.List_Lexorder" "HOL-Library.Char_ord"
    "HOL-Library.Multiset"
begin

section \<open>Layer generation of umoci: the data model\<close>

text \<open>
  The development follows \<^verbatim>\<open>oci/layer/generate.go\<close> (the layer generator and its
  splitter), the compressors of package \<^verbatim>\<open>mutate\<close> and the masked-path computation of
  \<^verbatim>\<open>cmd/umoci/repack.go\<close>. A byte stream handed to the consumer is modelled by the
  bytes written to its pipe and the error the pipe was closed with.
\<close>

type_synonym byte = "8 word"

subsection \<open>Errors\<close>

text \<open>
  \<^verbatim>\<open>errors.Wrap(err, msg)\<close> of \<^verbatim>\<open>github.com/pkg/errors\<close> keeps the cause and adds a
  context string; wrapping \<^verbatim>\<open>nil\<close> gives \<^verbatim>\<open>nil\<close>. \<open>Cause\<close> is an error raised by a
  collaborator (file system, id mapper, pipe), \<open>GoPanic\<close> a run-time panic.
\<close>

datatype error = Cause string | Wrap error string | GoPanic string

definition errors_Wrap :: "error option \<Rightarrow> string \<Rightarrow> error option" where
  "errors_Wrap err msg = (case err of None \<Rightarrow> None | Some e \<Rightarrow> Some (Wrap e msg))"

subsection \<open>Inode deltas, file information, options\<close>

text \<open>
  The declarations of \<^verbatim>\<open>mtree.InodeDelta\<close> and \<^verbatim>\<open>mtree.DifferenceType\<close> are not among the
  sources; the four kinds are those the specification lists. The generator reads a delta
  through \<^verbatim>\<open>Path()\<close> and \<^verbatim>\<open>Type()\<close> only.
\<close>

datatype DifferenceType = Missing | Extra | Modified | Same

record InodeDelta =
  Path :: string
  Type :: DifferenceType

datatype FileType = Regular | Directory | Symlink | CharDevice | BlockDevice | Fifo | Socket

text \<open>
  \<^verbatim>\<open>os.FileInfo\<close> together with the \<^verbatim>\<open>stat\<close> fields the tar generator reads.
  \<open>fi_Size\<close> is Go's \<^verbatim>\<open>int64\<close>, a 64-bit word read signed; \<open>fi_ModTime\<close> counts
  nanoseconds.
\<close>

record FileInfo =
  fi_Type :: FileType
  fi_Size :: "64 word"
  fi_Mode :: nat
  fi_Uid :: nat
  fi_Gid :: nat
  fi_ModTime :: int
  fi_Dev :: nat
  fi_Ino :: nat
  fi_Nlink :: nat
  fi_Major :: nat
  fi_Minor :: nat

record IDMap =
  ContainerID :: nat
  HostID :: nat
  MapSize :: nat

record MapOptions =
  UIDMappings :: "IDMap list"
  GIDMappings :: "IDMap list"
  Rootless :: bool
  TranslateOverlayWhiteouts :: bool

text \<open>The zero value of \<^verbatim>\<open>MapOptions\<close>, used when the caller passes \<^verbatim>\<open>nil\<close>.\<close>

definition zeroMapOptions :: MapOptions where
  "zeroMapOptions =
     \<lparr>UIDMappings = [], GIDMappings = [], Rootless = False, TranslateOverlayWhiteouts = False\<rparr>"

subsection \<open>Machine integers and paths\<close>

text \<open>
  \<^verbatim>\<open>writeCounter.written\<close> and \<^verbatim>\<open>maxLayerBytes\<close> are \<^verbatim>\<open>uint64\<close>: naturals below
  \<open>2 ^ 64\<close>, every sum reduced modulo \<open>2 ^ 64\<close>. \<^verbatim>\<open>uint64(fi.Size())\<close> reads the bits of
  the \<^verbatim>\<open>int64\<close> size unsigned.
\<close>

definition u64 :: "nat \<Rightarrow> nat" where
  "u64 n = n mod 2 ^ 64"

definition uint64 :: "64 word \<Rightarrow> nat" where
  "uint64 i = unat i"

text \<open>
  \<^verbatim>\<open>path.Clean\<close> and \<^verbatim>\<open>path.Join\<close> of the Go library (\<^verbatim>\<open>filepath\<close> is the same on
  Linux): \<open>splitSlash\<close> cuts a path at every slash, \<open>cleanParts\<close> drops empty and
  \<^verbatim>\<open>.\<close> components and resolves \<^verbatim>\<open>..\<close> against the component before it.
\<close>

fun splitSlash :: "string \<Rightarrow> string list" where
  "splitSlash [] = [[]]"
| "splitSlash (c # cs) =
     (if c = CHR ''/'' then [] # splitSlash cs
      else (case splitSlash cs of [] \<Rightarrow> [[c]] | p # ps \<Rightarrow> (c # p) # ps))"

fun cleanParts :: "bool \<Rightarrow> string list \<Rightarrow> string list \<Rightarrow> string list" where
  "cleanParts rooted acc [] = rev acc"
| "cleanParts rooted acc (p # ps) =
     (if p = [] \<or> p = ''.'' then cleanParts rooted acc ps
      else if p = ''..'' then
        (case acc of
           [] \<Rightarrow> if rooted then cleanParts rooted [] ps else cleanParts rooted [''..''] ps
         | a # as \<Rightarrow>
             if a = ''..'' then cleanParts rooted (''..'' # acc) ps
             else cleanParts rooted as ps)
      else cleanParts rooted (p # acc) ps)"

fun joinSlash :: "string list \<Rightarrow> string" where
  "joinSlash [] = []"
| "joinSlash [p] = p"
| "joinSlash (p # q # ps) = p @ ''/'' @ joinSlash (q # ps)"

definition path_Clean :: "string \<Rightarrow> string" where
  "path_Clean p =
     (if p = [] then ''.''
      else let rooted = (hd p = CHR ''/'');
               out = (if rooted then ''/'' else []) @ joinSlash (cleanParts rooted [] (splitSlash p))
           in if out = [] then ''.'' else out)"

definition path_Join :: "string list \<Rightarrow> string" where
  "path_Join elems =
     (case filter (\<lambda>e. e \<noteq> []) elems of
        [] \<Rightarrow> []
      | e # es \<Rightarrow> path_Clean (joinSlash (e # es)))"

section \<open>The layer generator\<close>

subsection \<open>The tar generator as the generator sees it\<close>

text \<open>
  \<^verbatim>\<open>tarGenerator\<close> (\<^verbatim>\<open>newTarGenerator\<close>, \<^verbatim>\<open>AddFile\<close>, \<^verbatim>\<open>AddWhiteout\<close>,
  \<^verbatim>\<open>AddOpaqueWhiteout\<close>) is declared in a file that is not among the sources, so the
  generators take it as a parameter. A call returns the bytes it wrote to its writer, the
  error it returned (if any) and the generator after the call. \<open>tg_Lstat\<close> is
  \<^verbatim>\<open>tg.fsEval.Lstat\<close> and \<open>tg_twClose\<close> is \<^verbatim>\<open>tg.tw.Close\<close>. The first argument of
  \<open>tg_new\<close> (\<^verbatim>\<open>newTarGenerator\<close>) stands for the writer it is given: the number of the
  pipe behind it, pipes counted from 0 in the order \<^verbatim>\<open>io.Pipe()\<close> makes them, so that the
  writes of a generator may fail once the reader of its pipe is closed.
\<close>

type_synonym 'tg call = "byte list \<times> error option \<times> 'tg"

record 'tg TarGen =
  tg_new :: "nat \<Rightarrow> MapOptions \<Rightarrow> 'tg"
  tg_Lstat :: "'tg \<Rightarrow> string \<Rightarrow> error + FileInfo"
  tg_AddFile :: "'tg \<Rightarrow> string \<Rightarrow> string \<Rightarrow> FileInfo \<Rightarrow> 'tg call"
  tg_AddWhiteout :: "'tg \<Rightarrow> string \<Rightarrow> 'tg call"
  tg_AddOpaqueWhiteout :: "'tg \<Rightarrow> string \<Rightarrow> 'tg call"
  tg_twClose :: "'tg \<Rightarrow> 'tg call"

definition call_out :: "'tg call \<Rightarrow> byte list" where
  "call_out r = fst r"

definition call_err :: "'tg call \<Rightarrow> error option" where
  "call_err r = fst (snd r)"

definition call_tg :: "'tg call \<Rightarrow> 'tg" where
  "call_tg r = snd (snd r)"

subsection \<open>Streams and the producer's state\<close>

text \<open>
  A layer stream as its reader sees it: the bytes written to the pipe and the error the
  writer closed the pipe with (\<open>None\<close>: a clean end of file).
\<close>

record Layer =
  content :: "byte list"
  closeErr :: "error option"

text \<open>
  The state of the producer goroutine: the streams already sealed (in the order they
  were sent on the channel), the bytes written to the current pipe, \<^verbatim>\<open>counter.written\<close>
  and the current tar generator.
\<close>

record 'tg producer =
  sealed :: "Layer list"
  cur :: "byte list"
  written :: nat
  tg :: 'tg

text \<open>
  A call of the tar generator writes through \<^verbatim>\<open>io.MultiWriter(counter, writer)\<close>: the
  bytes reach the pipe and are counted.
\<close>

definition wrote :: "'tg producer \<Rightarrow> 'tg call \<Rightarrow> 'tg producer" where
  "wrote s r =
     s\<lparr>cur := cur s @ call_out r, written := u64 (written s + length (call_out r)),
       tg := call_tg r\<rparr>"

text \<open>
  Lines 127 to 133 and 142 to 148: the tar writer is closed (its result is not looked at),
  the pipe is closed without an error, and a new pipe, counter and tar generator take
  their place; the new reader is sent on the channel.
\<close>

definition newLayer :: "'tg TarGen \<Rightarrow> MapOptions \<Rightarrow> 'tg producer \<Rightarrow> 'tg producer" where
  "newLayer ops mapOptions s =
     (let s' = wrote s (tg_twClose ops (tg s))
      in \<lparr>sealed = sealed s' @ [\<lparr>content = cur s', closeErr = None\<rparr>],
          cur = [], written = 0,
          tg = tg_new ops (Suc (length (sealed s'))) mapOptions\<rparr>)"

text \<open>
  The budget test of lines 126 and 141; \<open>fileSize\<close> is \<^verbatim>\<open>uint64(fi.Size())\<close> at line 126
  and absent (0) at line 141.
\<close>

definition tooBig :: "nat \<Rightarrow> nat \<Rightarrow> nat \<Rightarrow> bool" where
  "tooBig maxLayerBytes counter_written fileSize \<longleftrightarrow>
     maxLayerBytes > 0 \<and> u64 (u64 (counter_written + fileSize) + 1000) > maxLayerBytes"

text \<open>One iteration of the loop over the deltas (lines 100 to 155).\<close>

definition addDelta ::
  "'tg TarGen \<Rightarrow> MapOptions \<Rightarrow> string \<Rightarrow> nat \<Rightarrow> 'tg producer \<Rightarrow> InodeDelta
     \<Rightarrow> error option \<times> 'tg producer" where
  "addDelta ops mapOptions path maxLayerBytes s delta =
     (let name = Path delta;
          fullPath = path_Join [path, name]
      in if Type delta = Modified \<or> Type delta = Extra then
           (case tg_Lstat ops (tg s) fullPath of
              Inl err \<Rightarrow> (Some (Wrap err ''add file lstat''), s)
            | Inr fi \<Rightarrow>
                (let s1 = (if tooBig maxLayerBytes (written s) (uint64 (fi_Size fi))
                           then newLayer ops mapOptions s else s);
                     r = tg_AddFile ops (tg s1) name fullPath fi
                 in (errors_Wrap (call_err r) ''generate layer file'', wrote s1 r)))
         else if Type delta = Missing then
           (let s1 = (if tooBig maxLayerBytes (written s) 0
                      then newLayer ops mapOptions s else s);
                r = tg_AddWhiteout ops (tg s1) name
            in (errors_Wrap (call_err r) ''generate whiteout layer file'', wrote s1 r))
         else (None, s))"

text \<open>
  The loop over the deltas (lines 100 to 155): it ends at the first error an iteration
  returns.
\<close>

fun deltaLoop ::
  "'tg TarGen \<Rightarrow> MapOptions \<Rightarrow> string \<Rightarrow> nat \<Rightarrow> 'tg producer \<Rightarrow> InodeDelta list
     \<Rightarrow> error option \<times> 'tg producer" where
  "deltaLoop ops mapOptions path maxLayerBytes s [] = (None, s)"
| "deltaLoop ops mapOptions path maxLayerBytes s (delta # deltas) =
     (case addDelta ops mapOptions path maxLayerBytes s delta of
        (Some err, s') \<Rightarrow> (Some err, s')
      | (None, s') \<Rightarrow> deltaLoop ops mapOptions path maxLayerBytes s' deltas)"

text \<open>The final close of the tar writer (lines 157 to 162).\<close>

definition closeTar :: "'tg TarGen \<Rightarrow> 'tg producer \<Rightarrow> error option \<times> 'tg producer" where
  "closeTar ops s =
     (let r = tg_twClose ops (tg s)
      in (errors_Wrap (call_err r) ''close tar writer'', wrote s r))"

text \<open>
  The loop followed by the final close (lines 100 to 162): the goroutine's result
  \<open>Err\<close> and the state it ends in.
\<close>

definition produce ::
  "'tg TarGen \<Rightarrow> MapOptions \<Rightarrow> string \<Rightarrow> nat \<Rightarrow> 'tg producer \<Rightarrow> InodeDelta list
     \<Rightarrow> error option \<times> 'tg producer" where
  "produce ops mapOptions path maxLayerBytes s deltas =
     (case deltaLoop ops mapOptions path maxLayerBytes s deltas of
        (Some err, s') \<Rightarrow> (Some err, s')
      | (None, s') \<Rightarrow> closeTar ops s')"

text \<open>
  Lines 33 to 39: \<^verbatim>\<open>inodeDeltas\<close> compares two deltas by \<^verbatim>\<open>Path()\<close>, under Go's
  byte-wise order of strings.
\<close>

definition Less :: "InodeDelta \<Rightarrow> InodeDelta \<Rightarrow> bool" where
  "Less a b \<longleftrightarrow> Path a < Path b"

text \<open>
  \<^verbatim>\<open>sort.Sort\<close> of the Go library rearranges the slice so that no element is \<^verbatim>\<open>Less\<close>
  than one before it. It is not stable: the library promises no order among deltas of
  equal path, and which order they get depends on its algorithm. A \<open>sorter\<close> is any
  function that keeps the promise of \<^verbatim>\<open>sort.Sort\<close>; the generators take the sorter as a
  parameter, and \<open>sort_Sort srt deltas\<close> is the slice after line 98.
\<close>

typedef sorter =
  "{f :: InodeDelta list \<Rightarrow> InodeDelta list.
      \<forall>ds. mset (f ds) = mset ds \<and> sorted_wrt (\<lambda>a b. \<not> Less b a) (f ds)}"
  morphisms sort_Sort Abs_sorter
proof -
  have "sorted_wrt (\<lambda>a b. \<not> Less b a) (sort_key Path ds)" for ds
    using sorted_sort_key [of Path ds] unfolding sorted_map Less_def not_less .
  then show ?thesis by (intro exI [of _ "sort_key Path"]) simp
qed

definition startLayer :: "'tg TarGen \<Rightarrow> MapOptions \<Rightarrow> 'tg producer" where
  "startLayer ops mapOptions =
     \<lparr>sealed = [], cur = [], written = 0, tg = tg_new ops 0 mapOptions\<rparr>"

text \<open>The body of the goroutine of \<^verbatim>\<open>GenerateLayers\<close>, before its deferred call.\<close>

definition goroutine ::
  "'tg TarGen \<Rightarrow> sorter \<Rightarrow> MapOptions \<Rightarrow> string \<Rightarrow> InodeDelta list \<Rightarrow> nat
     \<Rightarrow> error option \<times> 'tg producer" where
  "goroutine ops srt mapOptions path deltas maxLayerBytes =
     produce ops mapOptions path maxLayerBytes (startLayer ops mapOptions)
       (sort_Sort srt deltas)"

text \<open>
  The deferred call closes the last pipe with \<^verbatim>\<open>errors.Wrap(Err, "generate layer")\<close> and
  closes the channel: \<open>channelOf\<close> is everything the channel delivers, in order.
\<close>

definition channelOf :: "error option \<times> 'tg producer \<Rightarrow> Layer list" where
  "channelOf r =
     sealed (snd r) @ [\<lparr>content = cur (snd r), closeErr = errors_Wrap (fst r) ''generate layer''\<rparr>]"

definition optOrZero :: "MapOptions option \<Rightarrow> MapOptions" where
  "optOrZero opt = (case opt of None \<Rightarrow> zeroMapOptions | Some mapOptions \<Rightarrow> mapOptions)"

text \<open>
  \<^verbatim>\<open>GenerateLayers\<close> returns the channel and never an error; \<open>opt\<close> is \<open>None\<close> for a
  \<^verbatim>\<open>nil\<close> pointer.
\<close>

definition GenerateLayers ::
  "'tg TarGen \<Rightarrow> sorter \<Rightarrow> string \<Rightarrow> InodeDelta list \<Rightarrow> MapOptions option \<Rightarrow> nat
     \<Rightarrow> error + Layer list" where
  "GenerateLayers ops srt path deltas opt maxLayerBytes =
     Inr (channelOf (goroutine ops srt (optOrZero opt) path deltas maxLayerBytes))"

text \<open>
  \<^verbatim>\<open>GenerateLayer\<close> receives once from the channel; a receive from a closed and empty
  channel would give the \<^verbatim>\<open>nil\<close> reader, \<open>None\<close> here.
\<close>

definition receive :: "Layer list \<Rightarrow> Layer option" where
  "receive ch = (case ch of [] \<Rightarrow> None | reader # _ \<Rightarrow> Some reader)"

definition GenerateLayer ::
  "'tg TarGen \<Rightarrow> sorter \<Rightarrow> string \<Rightarrow> InodeDelta list \<Rightarrow> MapOptions option
     \<Rightarrow> error + Layer option" where
  "GenerateLayer ops srt path deltas opt =
     (case GenerateLayers ops srt path deltas opt 0 of
        Inl err \<Rightarrow> Inl err
      | Inr ch \<Rightarrow> Inr (receive ch))"

subsection \<open>The insert-layer generator\<close>

text \<open>
  \<^verbatim>\<open>GenerateInsertLayer\<close> (lines 171 to 207). \<^verbatim>\<open>CleanPath\<close> and \<^verbatim>\<open>unpriv.Walk\<close> are not
  among the sources: \<open>CleanPath\<close> is a parameter, and \<open>Walk root\<close> lists the calls
  \<^verbatim>\<open>unpriv.Walk\<close> makes to its visitor, in order, each with the path and either the file
  information or the error of reading it. The visitor slices \<^verbatim>\<open>curPath[len(root):]\<close>, which
  panics when \<open>curPath\<close> is shorter than \<open>root\<close>; the panic, which ends the program, is
  reported as the error \<open>GoPanic\<close>. The tar writer is never closed here.
\<close>

type_synonym visit = "string \<times> (error + FileInfo)"

fun walkFiles ::
  "'tg TarGen \<Rightarrow> string \<Rightarrow> string \<Rightarrow> 'tg producer \<Rightarrow> visit list
     \<Rightarrow> error option \<times> 'tg producer" where
  "walkFiles ops root target s [] = (None, s)"
| "walkFiles ops root target s ((curPath, r) # visits) =
     (case r of
        Inl err \<Rightarrow> (Some err, s)
      | Inr info \<Rightarrow>
          if length curPath < length root
          then (Some (GoPanic ''slice bounds out of range''), s)
          else
            (let pathInTar = path_Join [target, drop (length root) curPath];
                 c = tg_AddFile ops (tg s) pathInTar curPath info
             in case call_err c of
                  Some err \<Rightarrow> (Some err, wrote s c)
                | None \<Rightarrow> walkFiles ops root target (wrote s c) visits))"

definition insertGoroutine ::
  "'tg TarGen \<Rightarrow> (string \<Rightarrow> visit list) \<Rightarrow> string \<Rightarrow> string \<Rightarrow> bool \<Rightarrow> MapOptions
     \<Rightarrow> error option \<times> 'tg producer" where
  "insertGoroutine ops Walk root target opaque mapOptions =
     (let s0 = startLayer ops mapOptions;
          c0 = tg_AddOpaqueWhiteout ops (tg s0) target
      in if opaque \<and> call_err c0 \<noteq> None then (call_err c0, wrote s0 c0)
         else
           (let s1 = (if opaque then wrote s0 c0 else s0)
            in if root = [] then
                 (let c1 = tg_AddWhiteout ops (tg s1) target in (call_err c1, wrote s1 c1))
               else walkFiles ops root target s1 (Walk root)))"

definition GenerateInsertLayer ::
  "'tg TarGen \<Rightarrow> (string \<Rightarrow> string) \<Rightarrow> (string \<Rightarrow> visit list) \<Rightarrow> string \<Rightarrow> string \<Rightarrow> bool
     \<Rightarrow> MapOptions option \<Rightarrow> Layer" where
  "GenerateInsertLayer ops CleanPath Walk root target opaque opt =
     (let r = insertGoroutine ops Walk (CleanPath root) target opaque (optOrZero opt)
      in \<lparr>content = cur (snd r), closeErr = errors_Wrap (fst r) ''generate layer''\<rparr>)"

section \<open>The tar generator\<close>

subsection \<open>Tar headers and the tar writer of the Go library\<close>

datatype TypeFlag = TypeReg | TypeLink | TypeSymlink | TypeChar | TypeBlock | TypeDir | TypeFifo

record Header =
  hdr_Typeflag :: TypeFlag
  hdr_Name :: string
  hdr_Linkname :: string
  hdr_Size :: nat
  hdr_Mode :: nat
  hdr_Uid :: nat
  hdr_Gid :: nat
  hdr_Uname :: string
  hdr_Gname :: string
  hdr_ModTime :: int
  hdr_Devmajor :: nat
  hdr_Devminor :: nat
  hdr_Xattrs :: "(string \<times> byte list) list"

text \<open>
  \<^verbatim>\<open>archive/tar.Writer\<close>: \<open>tw_nb\<close> is the number of body bytes the current entry still
  expects and \<open>tw_pad\<close> the padding owed after them (a body is padded to a multiple of 512
  bytes when the next header is written or the writer is closed). How a header is laid out
  in bytes (one 512-byte block, more with PAX records) is the library's business: the
  encoder \<open>enc\<close> is a parameter. \<^verbatim>\<open>Close\<close> ends the archive with two zero blocks.
\<close>

record tarWriter =
  tw_nb :: nat
  tw_pad :: nat

type_synonym 'w written = "byte list \<times> error option \<times> 'w"

definition Writer_Flush :: "tarWriter \<Rightarrow> tarWriter written" where
  "Writer_Flush w =
     (if tw_nb w > 0 then ([], Some (Cause ''archive/tar: missed writing bytes''), w)
      else (replicate (tw_pad w) 0, None, w\<lparr>tw_pad := 0\<rparr>))"

definition Writer_WriteHeader :: "(Header \<Rightarrow> byte list) \<Rightarrow> tarWriter \<Rightarrow> Header \<Rightarrow> tarWriter written" where
  "Writer_WriteHeader enc w hdr =
     (case Writer_Flush w of
        (out, Some err, w') \<Rightarrow> (out, Some err, w')
      | (out, None, w') \<Rightarrow>
          (out @ enc hdr, None,
           \<lparr>tw_nb = hdr_Size hdr, tw_pad = (512 - hdr_Size hdr mod 512) mod 512\<rparr>))"

definition Writer_Write :: "tarWriter \<Rightarrow> byte list \<Rightarrow> tarWriter written" where
  "Writer_Write w b =
     (if length b > tw_nb w
      then (take (tw_nb w) b, Some (Cause ''archive/tar: write too long''), w\<lparr>tw_nb := 0\<rparr>)
      else (b, None, w\<lparr>tw_nb := tw_nb w - length b\<rparr>))"

definition Writer_Close :: "tarWriter \<Rightarrow> tarWriter written" where
  "Writer_Close w =
     (case Writer_Flush w of
        (out, Some err, w') \<Rightarrow> (out, Some err, w')
      | (out, None, w') \<Rightarrow> (out @ replicate 1024 0, None, w'))"

subsection \<open>File-system evaluation and the id mapper\<close>

text \<open>
  Modelled from the spec: the FS-Eval abstraction of section 4.1 (\<^verbatim>\<open>lstat\<close>, \<^verbatim>\<open>readlink\<close>,
  \<^verbatim>\<open>open\<close>, \<^verbatim>\<open>listxattr\<close>, \<^verbatim>\<open>getxattr\<close>), whose package is not among the sources. \<open>fs_Open\<close>
  gives the bytes of the file. The two variants read the same file system, so one record
  stands for both.
\<close>

record FsEval =
  fs_Lstat :: "string \<Rightarrow> error + FileInfo"
  fs_Readlink :: "string \<Rightarrow> error + string"
  fs_Open :: "string \<Rightarrow> error + byte list"
  fs_Llistxattr :: "string \<Rightarrow> error + string list"
  fs_Lgetxattr :: "string \<Rightarrow> string \<Rightarrow> error + byte list"

text \<open>
  Modelled from the spec: the id mapper of section 4.2, host to container: the first
  range that covers the id decides, no range is a \<^verbatim>\<open>MapError\<close>, and an empty list of
  mappings is the identity.
\<close>

fun firstRange :: "IDMap list \<Rightarrow> nat \<Rightarrow> error + nat" where
  "firstRange [] i = Inl (Cause ''MapError'')"
| "firstRange (m # ms) i =
     (if HostID m \<le> i \<and> i < HostID m + MapSize m then Inr (ContainerID m + (i - HostID m))
      else firstRange ms i)"

definition toContainer :: "IDMap list \<Rightarrow> nat \<Rightarrow> error + nat" where
  "toContainer ms i = (if ms = [] then Inr i else firstRange ms i)"

subsection \<open>Entry names and whiteout names\<close>

text \<open>
  Modelled from the spec and from the repository's test of the insert layer. Section 8
  of the spec has no entry name begin with a slash, and
  \<^verbatim>\<open>TestInsertLayerTranslateOverlayWhiteouts\<close> reads the names \<^verbatim>\<open>/\<close> and \<^verbatim>\<open>.wh.test\<close> for the
  directory at the tar path \<^verbatim>\<open>/\<close> and the node at \<^verbatim>\<open>/test\<close>: a tar path loses its leading
  slash when it becomes a name, and the name of a directory ends with a slash. A relative
  path of anything but a directory is the name as it is (header rule 1).
\<close>

definition normalise :: "string \<Rightarrow> bool \<Rightarrow> string" where
  "normalise tar_path isDir =
     (let p = (case tar_path of
                 [] \<Rightarrow> []
               | c # cs \<Rightarrow> if c = CHR ''/'' then cs else tar_path)
      in if isDir then p @ ''/'' else p)"

text \<open>
  Modelled from the spec: section 3 names an OCI whiteout \<^verbatim>\<open>.wh.\<close> followed by the
  original base name, in the directory of the deleted path, and section 4.3 writes it
  \<^verbatim>\<open>dirname(tar_path) + "/.wh." + basename(tar_path)\<close>. \<open>splitLast\<close> cuts a path after its
  last slash; the slash of the formula is the one that ends the directory part, and a path
  with no directory part gets none (\<^verbatim>\<open>d/.wh.x\<close> for \<^verbatim>\<open>d/x\<close> in scenario 3 of the spec,
  \<^verbatim>\<open>.wh.test\<close> for \<^verbatim>\<open>/test\<close> in the test). The opaque whiteout of a directory lies in it.
\<close>

fun splitLast :: "string \<Rightarrow> string \<times> string" where
  "splitLast [] = ([], [])"
| "splitLast (c # cs) =
     (case splitLast cs of
        (dir, file) \<Rightarrow>
          if dir = [] \<and> c \<noteq> CHR ''/'' then ([], c # file) else (c # dir, file))"

definition dirPart :: "string \<Rightarrow> string" where
  "dirPart p = fst (splitLast p)"

definition basename :: "string \<Rightarrow> string" where
  "basename p = snd (splitLast p)"

definition whPrefix :: string where
  "whPrefix = ''.wh.''"

definition whiteoutPath :: "string \<Rightarrow> string" where
  "whiteoutPath tar_path =
     (let name = normalise tar_path False in dirPart name @ whPrefix @ basename name)"

definition opaquePath :: "string \<Rightarrow> string" where
  "opaquePath tar_path = normalise tar_path True @ ''.wh..wh..opq''"

subsection \<open>The generator's operations\<close>

text \<open>
  Modelled from the spec: the tar generator's state of section 3, without the
  seen-directory set, which no operation of section 4.3 reads or writes. Its byte sink is
  the writer the calls return their bytes to; the reader of the pipe is taken to read them
  all, so that no write fails. \<open>newTarGenerator\<close> ignores the number of its pipe.
\<close>

record tarGenerator =
  tw :: tarWriter
  mapOptions :: MapOptions
  inodes :: "nat \<times> nat \<Rightarrow> string option"

definition newTarGenerator :: "nat \<Rightarrow> MapOptions \<Rightarrow> tarGenerator" where
  "newTarGenerator pipe opt =
     \<lparr>tw = \<lparr>tw_nb = 0, tw_pad = 0\<rparr>, mapOptions = opt, inodes = (\<lambda>_. None)\<rparr>"

definition onWriter :: "tarGenerator \<Rightarrow> tarWriter written \<Rightarrow> tarGenerator call" where
  "onWriter g r = (fst r, fst (snd r), g\<lparr>tw := snd (snd r)\<rparr>)"

definition emptyReg :: "string \<Rightarrow> Header" where
  "emptyReg name =
     \<lparr>hdr_Typeflag = TypeReg, hdr_Name = name, hdr_Linkname = [], hdr_Size = 0, hdr_Mode = 0,
      hdr_Uid = 0, hdr_Gid = 0, hdr_Uname = [], hdr_Gname = [], hdr_ModTime = 0,
      hdr_Devmajor = 0, hdr_Devminor = 0, hdr_Xattrs = []\<rparr>"

text \<open>
  Modelled from the spec: \<^verbatim>\<open>add_whiteout\<close> and \<^verbatim>\<open>add_opaque_whiteout\<close> of section 4.3
  emit an empty regular-file entry under the whiteout name; the spec fixes no other field
  of its header.
\<close>

definition AddWhiteout :: "(Header \<Rightarrow> byte list) \<Rightarrow> tarGenerator \<Rightarrow> string \<Rightarrow> tarGenerator call" where
  "AddWhiteout enc g tar_path =
     onWriter g (Writer_WriteHeader enc (tw g) (emptyReg (whiteoutPath tar_path)))"

definition AddOpaqueWhiteout ::
  "(Header \<Rightarrow> byte list) \<Rightarrow> tarGenerator \<Rightarrow> string \<Rightarrow> tarGenerator call" where
  "AddOpaqueWhiteout enc g tar_path =
     onWriter g (Writer_WriteHeader enc (tw g) (emptyReg (opaquePath tar_path)))"

text \<open>
  Modelled from the spec: header rule 6. Every extended attribute that \<^verbatim>\<open>listxattr\<close>
  returns is read and kept, but for those whose name begins with \<^verbatim>\<open>trusted.overlay.\<close>.
\<close>

fun readXattrs :: "FsEval \<Rightarrow> string \<Rightarrow> string list \<Rightarrow> error + (string \<times> byte list) list" where
  "readXattrs fs p [] = Inr []"
| "readXattrs fs p (n # ns) =
     (if take 16 n = ''trusted.overlay.'' then readXattrs fs p ns
      else
        (case fs_Lgetxattr fs p n of
           Inl err \<Rightarrow> Inl err
         | Inr v \<Rightarrow>
             (case readXattrs fs p ns of
                Inl err \<Rightarrow> Inl err
              | Inr xs \<Rightarrow> Inr ((n, v) # xs))))"

text \<open>
  Modelled from the spec: header rules 1 to 6 for the fields every type shares. The name
  is that of the tar path (\<open>normalise\<close>), the ids are mapped from host to container, the
  user and group names stay empty and the modification time is cut to whole seconds. The
  type flag set here is a placeholder that \<open>AddFile\<close> overwrites.
\<close>

definition baseHeader :: "FsEval \<Rightarrow> MapOptions \<Rightarrow> string \<Rightarrow> string \<Rightarrow> FileInfo \<Rightarrow> error + Header" where
  "baseHeader fs opt tar_path disk_path fi =
     (case toContainer (UIDMappings opt) (fi_Uid fi) of
        Inl err \<Rightarrow> Inl err
      | Inr uid \<Rightarrow>
     (case toContainer (GIDMappings opt) (fi_Gid fi) of
        Inl err \<Rightarrow> Inl err
      | Inr gid \<Rightarrow>
     (case fs_Llistxattr fs disk_path of
        Inl err \<Rightarrow> Inl err
      | Inr names \<Rightarrow>
     (case readXattrs fs disk_path names of
        Inl err \<Rightarrow> Inl err
      | Inr xattrs \<Rightarrow>
          Inr \<lparr>hdr_Typeflag = TypeReg,
               hdr_Name = normalise tar_path (fi_Type fi = Directory),
               hdr_Linkname = [], hdr_Size = 0,
               hdr_Mode = fi_Mode fi, hdr_Uid = uid, hdr_Gid = gid, hdr_Uname = [],
               hdr_Gname = [], hdr_ModTime = fi_ModTime fi div 1000000000,
               hdr_Devmajor = 0, hdr_Devminor = 0, hdr_Xattrs = xattrs\<rparr>))))"

text \<open>
  Modelled from the spec: a regular file is a \<open>Reg\<close> header followed by the body of the
  file; its size is that of the file information.
\<close>

definition addRegular ::
  "(Header \<Rightarrow> byte list) \<Rightarrow> FsEval \<Rightarrow> tarGenerator \<Rightarrow> Header \<Rightarrow> string \<Rightarrow> FileInfo
     \<Rightarrow> tarGenerator call" where
  "addRegular enc fs g base disk_path fi =
     (let h = Writer_WriteHeader enc (tw g)
                (base\<lparr>hdr_Typeflag := TypeReg, hdr_Size := nat (sint (fi_Size fi))\<rparr>)
      in case fst (snd h) of
           Some err \<Rightarrow> onWriter g h
         | None \<Rightarrow>
             (case fs_Open fs disk_path of
                Inl err \<Rightarrow> (fst h, Some err, g\<lparr>tw := snd (snd h)\<rparr>)
              | Inr body \<Rightarrow>
                  (let b = Writer_Write (snd (snd h)) body
                   in (fst h @ fst b, fst (snd b), g\<lparr>tw := snd (snd b)\<rparr>))))"

text \<open>
  Modelled from the spec: \<^verbatim>\<open>add_file\<close> of section 4.3, by file type. A character device
  0:0 under \<^verbatim>\<open>translate_overlay_whiteouts\<close> becomes a whiteout before any header is
  built; a socket is skipped; a regular file with more than one link whose device and
  inode were recorded becomes a \<open>Link\<close> to the name of the first path, and is recorded
  otherwise. The spec passes the errors of the file system and of the id mapper on without
  naming a context string for them.
\<close>

definition AddFile ::
  "(Header \<Rightarrow> byte list) \<Rightarrow> FsEval \<Rightarrow> tarGenerator \<Rightarrow> string \<Rightarrow> string \<Rightarrow> FileInfo
     \<Rightarrow> tarGenerator call" where
  "AddFile enc fs g tar_path disk_path fi =
     (if TranslateOverlayWhiteouts (mapOptions g) \<and> fi_Type fi = CharDevice
          \<and> fi_Major fi = 0 \<and> fi_Minor fi = 0
      then AddWhiteout enc g tar_path
      else if fi_Type fi = Socket then ([], None, g)
      else
        (case baseHeader fs (mapOptions g) tar_path disk_path fi of
           Inl err \<Rightarrow> ([], Some err, g)
         | Inr base \<Rightarrow>
             (case fi_Type fi of
                Regular \<Rightarrow>
                  (if fi_Nlink fi > 1 then
                     (case inodes g (fi_Dev fi, fi_Ino fi) of
                        Some first \<Rightarrow>
                          onWriter g (Writer_WriteHeader enc (tw g)
                            (base\<lparr>hdr_Typeflag := TypeLink, hdr_Linkname := first\<rparr>))
                      | None \<Rightarrow>
                          addRegular enc fs
                            (g\<lparr>inodes := (inodes g)((fi_Dev fi, fi_Ino fi)
                                           \<mapsto> normalise tar_path False)\<rparr>)
                            base disk_path fi)
                   else addRegular enc fs g base disk_path fi)
              | Directory \<Rightarrow>
                  onWriter g (Writer_WriteHeader enc (tw g) (base\<lparr>hdr_Typeflag := TypeDir\<rparr>))
              | Symlink \<Rightarrow>
                  (case fs_Readlink fs disk_path of
                     Inl err \<Rightarrow> ([], Some err, g)
                   | Inr target \<Rightarrow>
                       onWriter g (Writer_WriteHeader enc (tw g)
                         (base\<lparr>hdr_Typeflag := TypeSymlink, hdr_Linkname := target\<rparr>)))
              | CharDevice \<Rightarrow>
                  onWriter g (Writer_WriteHeader enc (tw g)
                    (base\<lparr>hdr_Typeflag := TypeChar, hdr_Devmajor := fi_Major fi,
                          hdr_Devminor := fi_Minor fi\<rparr>))
              | BlockDevice \<Rightarrow>
                  onWriter g (Writer_WriteHeader enc (tw g)
                    (base\<lparr>hdr_Typeflag := TypeBlock, hdr_Devmajor := fi_Major fi,
                          hdr_Devminor := fi_Minor fi\<rparr>))
              | Fifo \<Rightarrow>
                  onWriter g (Writer_WriteHeader enc (tw g) (base\<lparr>hdr_Typeflag := TypeFifo\<rparr>))
              | Socket \<Rightarrow> ([], None, g))))"

text \<open>
  The tar generator over a header encoder and a file system, as the layer generators
  take it.
\<close>

definition tarGen :: "(Header \<Rightarrow> byte list) \<Rightarrow> FsEval \<Rightarrow> tarGenerator TarGen" where
  "tarGen enc fs =
     \<lparr>tg_new = newTarGenerator,
      tg_Lstat = (\<lambda>g. fs_Lstat fs),
      tg_AddFile = AddFile enc fs,
      tg_AddWhiteout = AddWhiteout enc,
      tg_AddOpaqueWhiteout = AddOpaqueWhiteout enc,
      tg_twClose = (\<lambda>g. onWriter g (Writer_Close (tw g)))\<rparr>"

section \<open>Compressors\<close>

text \<open>
  An \<^verbatim>\<open>io.Reader\<close> is a state together with its \<^verbatim>\<open>Read\<close> method: \<open>rd_Read st n\<close> is a
  call with a buffer of \<open>n\<close> bytes and gives the bytes read, the error and the next state.
\<close>

record 's Reader =
  rd_state :: 's
  rd_Read :: "'s \<Rightarrow> nat \<Rightarrow> byte list \<times> error option \<times> 's"

definition Read :: "'s Reader \<Rightarrow> nat \<Rightarrow> byte list \<times> error option \<times> 's Reader" where
  "Read rd n =
     (case rd_Read rd (rd_state rd) n of (bs, err, st) \<Rightarrow> (bs, err, rd\<lparr>rd_state := st\<rparr>))"

definition io_EOF :: error where
  "io_EOF = Cause ''EOF''"

text \<open>\<^verbatim>\<open>withClose\<close>: \<^verbatim>\<open>Read\<close> is the \<^verbatim>\<open>Read\<close> of the wrapped reader, \<^verbatim>\<open>Close\<close> returns \<^verbatim>\<open>nil\<close>.\<close>

record 's withClose =
  wc_r :: "'s Reader"

definition withClose_Read ::
  "'s withClose \<Rightarrow> nat \<Rightarrow> byte list \<times> error option \<times> 's withClose" where
  "withClose_Read wc n = (case Read (wc_r wc) n of (bs, err, rd) \<Rightarrow> (bs, err, \<lparr>wc_r = rd\<rparr>))"

definition withClose_Close :: "'s withClose \<Rightarrow> error option" where
  "withClose_Close wc = None"

record noopCompressor =
  mediaType :: string

definition NewNoopCompressor :: "string \<Rightarrow> noopCompressor" where
  "NewNoopCompressor m = \<lparr>mediaType = m\<rparr>"

definition Compress :: "noopCompressor \<Rightarrow> 's Reader \<Rightarrow> error + 's withClose" where
  "Compress nc rd = Inr \<lparr>wc_r = rd\<rparr>"

definition MediaType :: "noopCompressor \<Rightarrow> string" where
  "MediaType nc = mediaType nc"

text \<open>
  The results of successive \<^verbatim>\<open>Read\<close> calls with buffers of the given sizes, on a reader
  and on a \<^verbatim>\<open>withClose\<close>.
\<close>

fun reads :: "'s Reader \<Rightarrow> nat list \<Rightarrow> (byte list \<times> error option) list" where
  "reads rd [] = []"
| "reads rd (n # ns) = (case Read rd n of (bs, err, rd') \<Rightarrow> (bs, err) # reads rd' ns)"

fun withClose_reads :: "'s withClose \<Rightarrow> nat list \<Rightarrow> (byte list \<times> error option) list" where
  "withClose_reads wc [] = []"
| "withClose_reads wc (n # ns) =
     (case withClose_Read wc n of (bs, err, wc') \<Rightarrow> (bs, err) # withClose_reads wc' ns)"

text \<open>
  A reader over a byte sequence, as \<^verbatim>\<open>bytes.Buffer\<close> reads: an empty buffer gives
  \<^verbatim>\<open>io.EOF\<close> (and nothing at all for an empty \<^verbatim>\<open>p\<close>), any other as many bytes as fit.
\<close>

definition bytesReader :: "byte list \<Rightarrow> byte list Reader" where
  "bytesReader bs =
     \<lparr>rd_state = bs,
      rd_Read = (\<lambda>buf n. if buf = [] then ([], if n = 0 then None else Some io_EOF, [])
                         else (take n buf, None, drop n buf))\<rparr>"

text \<open>
  \<^verbatim>\<open>ioutil.ReadAll\<close> on a \<^verbatim>\<open>withClose\<close>, reading into a buffer of 512 bytes (its least)
  until an error; the end of file is no error. The loop runs as long as the reader returns
  no error, so it takes fuel: \<open>None\<close> when the fuel runs out.
\<close>

fun ReadAll :: "nat \<Rightarrow> 's withClose \<Rightarrow> byte list \<Rightarrow> (error + byte list) option" where
  "ReadAll 0 wc acc = None"
| "ReadAll (Suc fuel) wc acc =
     (case withClose_Read wc 512 of
        (bs, Some err, wc') \<Rightarrow> Some (if err = io_EOF then Inr (acc @ bs) else Inl err)
      | (bs, None, wc') \<Rightarrow> ReadAll fuel wc' (acc @ bs))"

section \<open>The repack driver\<close>

text \<open>
  Lines 133 to 138 of \<^verbatim>\<open>repack.go\<close>. \<open>mask_path\<close> is \<^verbatim>\<open>ctx.StringSlice("mask-path")\<close> and
  \<open>no_mask_volumes\<close> is \<^verbatim>\<open>ctx.Bool("no-mask-volumes")\<close>. \<^verbatim>\<open>Config.Volumes\<close> is a Go map from
  strings to empty structs: an association list of distinct keys, in the order the
  \<^verbatim>\<open>range\<close> of this run yields them (Go fixes none).
\<close>

record cliContext =
  mask_path :: "string list"
  no_mask_volumes :: bool

record imageConfig =
  Volumes :: "(string \<times> unit) list"

definition maskedPaths :: "cliContext \<Rightarrow> imageConfig \<Rightarrow> string list" where
  "maskedPaths ctx config =
     (let maskedPaths = mask_path ctx
      in if \<not> no_mask_volumes ctx
         then fold (\<lambda>v maskedPaths. maskedPaths @ [v]) (map fst (Volumes config)) maskedPaths
         else maskedPaths)"

section \<open>Concrete inputs\<close>

text \<open>
  A header encoder for the examples: one block of 512 bytes that starts with the name, as
  the header blocks of the tar format do.
\<close>

definition nameBlock :: "Header \<Rightarrow> byte list" where
  "nameBlock h = take 512 (map (\<lambda>c. of_nat (of_char c)) (hdr_Name h) @ replicate 512 0)"

text \<open>
  A second encoder, whose header grows with the name, as the header of the tar writer does
  when a name needs PAX records (header rule 7): a name of more than 100 bytes is preceded
  by a block for the extended header and by the name itself, padded to whole blocks. And a
  path with such a name.
\<close>

definition paxBlocks :: "Header \<Rightarrow> byte list" where
  "paxBlocks h =
     (if length (hdr_Name h) \<le> 100 then nameBlock h
      else replicate 512 120
           @ map (\<lambda>c. of_nat (of_char c)) (hdr_Name h)
           @ replicate ((512 - length (hdr_Name h) mod 512) mod 512) 0
           @ nameBlock h)"

definition longName :: string where
  "longName = ''etc/'' @ replicate 120 (CHR ''x'')"

text \<open>
  A root file system \<^verbatim>\<open>rootfs\<close> that holds the regular file \<^verbatim>\<open>d/a\<close> of five bytes and
  nothing else.
\<close>

definition fileA :: FileInfo where
  "fileA =
     \<lparr>fi_Type = Regular, fi_Size = 5, fi_Mode = 420, fi_Uid = 0, fi_Gid = 0,
      fi_ModTime = 0, fi_Dev = 1, fi_Ino = 2, fi_Nlink = 1, fi_Major = 0, fi_Minor = 0\<rparr>"

definition rootfs :: FsEval where
  "rootfs =
     \<lparr>fs_Lstat = (\<lambda>p. if p = ''rootfs/d/a'' then Inr fileA else Inl (Cause ''ENOENT'')),
      fs_Readlink = (\<lambda>p. Inl (Cause ''EINVAL'')),
      fs_Open = (\<lambda>p. if p = ''rootfs/d/a'' then Inr [104, 101, 108, 108, 111]
                      else Inl (Cause ''ENOENT'')),
      fs_Llistxattr = (\<lambda>p. Inr []),
      fs_Lgetxattr = (\<lambda>p n. Inl (Cause ''ENODATA''))\<rparr>"

text \<open>
  The tar generator of the examples, and the same generator behind a pipe whose reader
  has hung up before the tar writer is closed: the close fails as a write to a closed
  pipe does.
\<close>

definition exampleGen :: "tarGenerator TarGen" where
  "exampleGen = tarGen nameBlock rootfs"

definition hungUpGen :: "tarGenerator TarGen" where
  "hungUpGen =
     exampleGen\<lparr>tg_twClose := (\<lambda>g. ([], Some (Cause ''io: read/write on closed pipe''), g))\<rparr>"

text \<open>The directory of the test of the insert layer: a character device 0:0 named \<^verbatim>\<open>test\<close>.\<close>

definition dirInfo :: FileInfo where
  "dirInfo =
     \<lparr>fi_Type = Directory, fi_Size = 4096, fi_Mode = 448, fi_Uid = 0, fi_Gid = 0,
      fi_ModTime = 0, fi_Dev = 1, fi_Ino = 10, fi_Nlink = 2, fi_Major = 0, fi_Minor = 0\<rparr>"

definition testNode :: FileInfo where
  "testNode =
     \<lparr>fi_Type = CharDevice, fi_Size = 0, fi_Mode = 438, fi_Uid = 0, fi_Gid = 0,
      fi_ModTime = 0, fi_Dev = 1, fi_Ino = 11, fi_Nlink = 1, fi_Major = 0, fi_Minor = 0\<rparr>"

definition walkDir :: "string \<Rightarrow> visit list" where
  "walkDir root = [(root, Inr dirInfo), (root @ ''/test'', Inr testNode)]"

text \<open>The file system of that directory, \<^verbatim>\<open>/dir\<close>.\<close>

definition overlayDir :: FsEval where
  "overlayDir =
     \<lparr>fs_Lstat = (\<lambda>p. if p = ''/dir/test'' then Inr testNode
                       else if p = ''/dir'' then Inr dirInfo else Inl (Cause ''ENOENT'')),
      fs_Readlink = (\<lambda>p. Inl (Cause ''EINVAL'')),
      fs_Open = (\<lambda>p. Inl (Cause ''ENOENT'')),
      fs_Llistxattr = (\<lambda>p. Inr []),
      fs_Lgetxattr = (\<lambda>p n. Inl (Cause ''ENODATA''))\<rparr>"

definition overlayOptions :: MapOptions where
  "overlayOptions = zeroMapOptions\<lparr>TranslateOverlayWhiteouts := True\<rparr>"

section \<open>Properties of the layer generator\<close>

subsection \<open>The sorted deltas\<close>

lemma sort_Sort_mset: "mset (sort_Sort srt ds) = mset ds"
  using sort_Sort [of srt] by simp

lemma sort_Sort_set: "set (sort_Sort srt ds) = set ds"
  using sort_Sort_mset [of srt ds] by (rule mset_eq_setD)

lemma sort_Sort_sorted: "sorted (map Path (sort_Sort srt ds))"
  using sort_Sort [of srt] by (simp add: sorted_map Less_def not_less)

lemma filter_key_distinct:
  "distinct (map f xs) \<Longrightarrow> k \<in> set xs \<Longrightarrow> filter (\<lambda>x. f k = f x) xs = [k]"
proof (induction xs)
  case Nil
  then show ?case by simp
next
  case (Cons x xs)
  show ?case
  proof (cases "k = x")
    case True
    have "filter (\<lambda>y. f x = f y) xs = []"
      using Cons.prems(1) by (auto simp add: filter_empty_conv)
    then show ?thesis using True by simp
  next
    case False
    then have "k \<in> set xs" using Cons.prems(2) by simp
    moreover have "f k \<noteq> f x"
      using Cons.prems(1) \<open>k \<in> set xs\<close> by (force simp add: image_iff)
    ultimately show ?thesis using Cons.IH Cons.prems(1) by simp
  qed
qed

text \<open>
  Deltas of distinct paths have one sorted arrangement: every sorter gives the list that
  the insertion sort \<open>sort_key\<close> gives.
\<close>

lemma sort_Sort_distinct:
  assumes "distinct (map Path ds)"
  shows "sort_Sort srt ds = sort_key Path ds"
proof (rule properties_for_sort_key [symmetric])
  show "mset (sort_Sort srt ds) = mset ds" by (rule sort_Sort_mset)
  show "sorted (map Path (sort_Sort srt ds))" by (rule sort_Sort_sorted)
  fix k assume k: "k \<in> set (sort_Sort srt ds)"
  have d1: "distinct (map Path (sort_Sort srt ds))"
    using assms sort_Sort_mset [of srt ds] by (metis mset_map mset_eq_imp_distinct_iff)
  show "filter (\<lambda>x. Path k = Path x) (sort_Sort srt ds) = filter (\<lambda>x. Path k = Path x) ds"
    using filter_key_distinct [OF d1 k] filter_key_distinct [OF assms, of k] k
    by (simp add: sort_Sort_set)
qed

lemma sort_b_a:
  "sort_Sort srt [\<lparr>Path = ''d/b'', Type = Missing\<rparr>, \<lparr>Path = ''d/a'', Type = Extra\<rparr>]
     = [\<lparr>Path = ''d/a'', Type = Extra\<rparr>, \<lparr>Path = ''d/b'', Type = Missing\<rparr>]"
  by (simp add: sort_Sort_distinct)

subsection \<open>The producer's state\<close>

lemma sealed_wrote: "sealed (wrote s r) = sealed s"
  by (simp add: wrote_def)

lemma newLayer_sealed:
  "sealed (newLayer ops mo s) = sealed s @ [\<lparr>content = cur s @ call_out (tg_twClose ops (tg s)), closeErr = None\<rparr>]"
  by (simp add: newLayer_def Let_def wrote_def)

lemma newLayer_fresh: "cur (newLayer ops mo s) = [] \<and> written (newLayer ops mo s) = 0
   \<and> tg (newLayer ops mo s) = tg_new ops (Suc (length (sealed s))) mo"
  by (simp add: newLayer_def Let_def wrote_def)

lemma startLayer_fields:
  "sealed (startLayer ops mo) = []" "cur (startLayer ops mo) = []"
  "written (startLayer ops mo) = 0" "tg (startLayer ops mo) = tg_new ops 0 mo"
  by (simp_all add: startLayer_def)

lemma u64_add1000: "u64 (u64 (w + sz) + 1000) = (w + sz + 1000) mod 2 ^ 64"
  by (simp add: u64_def mod_add_left_eq)

lemma u64_small: "n < 2 ^ 64 \<Longrightarrow> u64 n = n"
  by (simp add: u64_def)

lemma tooBig_unlimited: "\<not> tooBig 0 w sz"
  by (simp add: tooBig_def)

lemma addDelta_Same: "Type d = Same \<Longrightarrow> addDelta ops mo path maxB s d = (None, s)"
  by (simp add: addDelta_def)

text \<open>The loop followed by the close, unfolded along the list of deltas.\<close>

lemma produce_Nil [simp]:
  "produce ops mo path maxB s [] =
     (let r = tg_twClose ops (tg s)
      in (errors_Wrap (call_err r) ''close tar writer'', wrote s r))"
  by (simp add: produce_def closeTar_def)

lemma produce_Cons [simp]:
  "produce ops mo path maxB s (d # ds) =
     (case addDelta ops mo path maxB s d of
        (Some err, s') \<Rightarrow> (Some err, s')
      | (None, s') \<Rightarrow> produce ops mo path maxB s' ds)"
  by (simp add: produce_def split: prod.splits option.splits)

lemma deltaLoop_append:
  "deltaLoop ops mo path maxB s (pre @ post) =
     (case deltaLoop ops mo path maxB s pre of
        (Some err, s') \<Rightarrow> (Some err, s')
      | (None, s') \<Rightarrow> deltaLoop ops mo path maxB s' post)"
  by (induction pre arbitrary: s) (simp_all split: prod.splits option.splits)

subsection \<open>The tar generator of the examples\<close>

lemma tarGen_fields:
  "tg_new (tarGen enc fs) = newTarGenerator"
  "tg_Lstat (tarGen enc fs) = (\<lambda>g. fs_Lstat fs)"
  "tg_AddFile (tarGen enc fs) = AddFile enc fs"
  "tg_AddWhiteout (tarGen enc fs) = AddWhiteout enc"
  "tg_AddOpaqueWhiteout (tarGen enc fs) = AddOpaqueWhiteout enc"
  "tg_twClose (tarGen enc fs) = (\<lambda>g. onWriter g (Writer_Close (tw g)))"
  by (simp_all add: tarGen_def)

lemma exampleGen_fields:
  "tg_new exampleGen = newTarGenerator"
  "tg_Lstat exampleGen = (\<lambda>g. fs_Lstat rootfs)"
  "tg_AddFile exampleGen = AddFile nameBlock rootfs"
  "tg_AddWhiteout exampleGen = AddWhiteout nameBlock"
  "tg_AddOpaqueWhiteout exampleGen = AddOpaqueWhiteout nameBlock"
  "tg_twClose exampleGen = (\<lambda>g. onWriter g (Writer_Close (tw g)))"
  by (simp_all add: exampleGen_def tarGen_def)

lemma hungUpGen_fields:
  "tg_new hungUpGen = newTarGenerator"
  "tg_AddWhiteout hungUpGen = AddWhiteout nameBlock"
  "tg_twClose hungUpGen = (\<lambda>g. ([], Some (Cause ''io: read/write on closed pipe''), g))"
  by (simp_all add: hungUpGen_def exampleGen_def tarGen_def)

lemma onWriter_parts:
  "call_out (onWriter g r) = fst r" "call_err (onWriter g r) = fst (snd r)"
  "tw (call_tg (onWriter g r)) = snd (snd r)"
  "mapOptions (call_tg (onWriter g r)) = mapOptions g"
  by (simp_all add: onWriter_def call_out_def call_err_def call_tg_def)

lemma fresh_Close:
  "onWriter (newTarGenerator n mo) (Writer_Close (tw (newTarGenerator n mo)))
     = (replicate 1024 0, None, newTarGenerator n mo)"
  by (simp add: onWriter_def Writer_Close_def Writer_Flush_def newTarGenerator_def)

lemma emptyReg_Size: "hdr_Size (emptyReg name) = 0"
  by (simp add: emptyReg_def)

lemma nameBlock_length: "length (nameBlock h) = 512"
  by (simp add: nameBlock_def)

lemma join_rootfs_a: "path_Join [''rootfs'', ''d/a''] = ''rootfs/d/a''"
  by (simp add: path_Join_def path_Clean_def)

lemma join_rootfs_b: "path_Join [''rootfs'', ''d/b''] = ''rootfs/d/b''"
  by (simp add: path_Join_def path_Clean_def)

lemma join_slash_empty: "path_Join [''/'', drop (length ''/dir'') ''/dir''] = ''/''"
  by (simp add: path_Join_def path_Clean_def)

lemma join_slash_test: "path_Join [''/'', drop (length ''/dir'') ''/dir/test''] = ''/test''"
  by (simp add: path_Join_def path_Clean_def)

lemma clean_dir: "path_Clean ''/dir'' = ''/dir''"
  by (simp add: path_Clean_def)

lemma normalise_names:
  "normalise ''/'' True = ''/''" "normalise ''/test'' False = ''test''"
  "normalise ''d/a'' False = ''d/a''"
  by (simp_all add: normalise_def)

lemma whiteoutPath_names:
  "whiteoutPath ''/test'' = ''.wh.test''" "whiteoutPath ''test'' = ''.wh.test''"
  "whiteoutPath ''d/b'' = ''d/.wh.b''" "whiteoutPath ''a'' = ''.wh.a''"
  "whiteoutPath ''b'' = ''.wh.b''" "whiteoutPath ''z'' = ''.wh.z''"
  by (simp_all add: whiteoutPath_def normalise_def dirPart_def basename_def whPrefix_def)

lemma AddFile_a:
  "AddFile enc rootfs (newTarGenerator 0 zeroMapOptions) ''d/a'' ''rootfs/d/a'' fileA
     = (enc \<lparr>hdr_Typeflag = TypeReg, hdr_Name = ''d/a'', hdr_Linkname = [], hdr_Size = 5,
              hdr_Mode = 420, hdr_Uid = 0, hdr_Gid = 0, hdr_Uname = [], hdr_Gname = [],
              hdr_ModTime = 0, hdr_Devmajor = 0, hdr_Devminor = 0, hdr_Xattrs = []\<rparr>
          @ [104, 101, 108, 108, 111],
        None,
        \<lparr>tw = \<lparr>tw_nb = 0, tw_pad = 507\<rparr>, mapOptions = zeroMapOptions, inodes = (\<lambda>_. None)\<rparr>)"
  by (simp add: AddFile_def fileA_def baseHeader_def toContainer_def rootfs_def
      newTarGenerator_def zeroMapOptions_def addRegular_def Let_def normalise_def
      Writer_WriteHeader_def Writer_Flush_def Writer_Write_def)

lemmas layers_eval =
  GenerateLayers_def goroutine_def sort_Sort_distinct channelOf_def addDelta_def tooBig_def
  u64_def uint64_def startLayer_fields Let_def wrote_def newLayer_def errors_Wrap_def
  optOrZero_def zeroMapOptions_def call_out_def call_err_def call_tg_def

lemmas tarGen_eval =
  exampleGen_fields newTarGenerator_def onWriter_def AddWhiteout_def AddOpaqueWhiteout_def
  Writer_WriteHeader_def Writer_Flush_def Writer_Write_def Writer_Close_def emptyReg_def

subsection \<open>A budget of zero\<close>

lemma addDelta_unlimited: "sealed (snd (addDelta ops mo path 0 s d)) = sealed s"
  by (simp add: addDelta_def tooBig_unlimited sealed_wrote Let_def split: sum.splits)

lemma produce_unlimited: "sealed (snd (produce ops mo path 0 s ds)) = sealed s"
proof (induction ds arbitrary: s)
  case Nil
  show ?case by (simp add: sealed_wrote Let_def)
next
  case (Cons d ds)
  have "sealed (snd (addDelta ops mo path 0 s d)) = sealed s"
    by (rule addDelta_unlimited)
  then show ?case using Cons.IH
    by (cases "addDelta ops mo path 0 s d") (auto split: option.splits)
qed

text \<open>
  Claim C10. With a budget of zero \<open>GenerateLayers\<close> sends exactly one stream on its
  channel, whatever the deltas, the order \<^verbatim>\<open>sort.Sort\<close> gives them and the tar generator,
  and \<open>GenerateLayer\<close> returns that stream.
\<close>

theorem GenerateLayer_is_only_layer:
  "\<exists>l. GenerateLayers ops srt path deltas opt 0 = Inr [l]
     \<and> GenerateLayer ops srt path deltas opt = Inr (Some l)"
  by (simp add: GenerateLayer_def GenerateLayers_def channelOf_def goroutine_def
      produce_unlimited startLayer_def receive_def)

subsection \<open>The budget test\<close>

text \<open>
  Claim C4, as amended. Before \<open>AddWhiteout\<close> and before \<open>AddFile\<close> the generator
  seals the current layer and opens a new one exactly when the budget is positive and the
  counter plus the predicted cost, the file size (0 for a whiteout) plus 1000, exceeds
  it in 64-bit arithmetic; the sealed stream is the current one followed by what closing
  the tar writer writes.
\<close>

theorem seals_exactly_when_over_budget:
  "(Type d = Missing \<longrightarrow>
      snd (addDelta ops mo path maxB s d) =
        (let s1 = (if 0 < maxB \<and> maxB < (written s + (0 + 1000)) mod 2 ^ 64
                   then newLayer ops mo s else s)
         in wrote s1 (tg_AddWhiteout ops (tg s1) (Path d)))
      \<and> sealed (snd (addDelta ops mo path maxB s d)) =
        (if 0 < maxB \<and> maxB < (written s + (0 + 1000)) mod 2 ^ 64
         then sealed s @ [\<lparr>content = cur s @ call_out (tg_twClose ops (tg s)), closeErr = None\<rparr>]
         else sealed s))
   \<and> ((Type d = Modified \<or> Type d = Extra)
        \<and> tg_Lstat ops (tg s) (path_Join [path, Path d]) = Inr fi \<longrightarrow>
      snd (addDelta ops mo path maxB s d) =
        (let s1 = (if 0 < maxB \<and> maxB < (written s + (uint64 (fi_Size fi) + 1000)) mod 2 ^ 64
                   then newLayer ops mo s else s)
         in wrote s1 (tg_AddFile ops (tg s1) (Path d) (path_Join [path, Path d]) fi))
      \<and> sealed (snd (addDelta ops mo path maxB s d)) =
        (if 0 < maxB \<and> maxB < (written s + (uint64 (fi_Size fi) + 1000)) mod 2 ^ 64
         then sealed s @ [\<lparr>content = cur s @ call_out (tg_twClose ops (tg s)), closeErr = None\<rparr>]
         else sealed s))"
  using u64_add1000 [of "written s" 0] u64_add1000 [of "written s" "uint64 (fi_Size fi)"]
  by (auto simp add: addDelta_def tooBig_def Let_def add.assoc sealed_wrote newLayer_sealed)

text \<open>
  A whiteout under a budget of 900 bytes seals the empty first layer; the file \<^verbatim>\<open>d/a\<close>
  under a budget of 2000 bytes does not.
\<close>

theorem seals_exactly_when_over_budget_witness:
  "snd (addDelta exampleGen zeroMapOptions ''rootfs'' 900 (startLayer exampleGen zeroMapOptions)
         \<lparr>Path = ''d/b'', Type = Missing\<rparr>)
     = wrote (newLayer exampleGen zeroMapOptions (startLayer exampleGen zeroMapOptions))
         (tg_AddWhiteout exampleGen
            (tg (newLayer exampleGen zeroMapOptions (startLayer exampleGen zeroMapOptions))) ''d/b'')
   \<and> sealed (snd (addDelta exampleGen zeroMapOptions ''rootfs'' 900
         (startLayer exampleGen zeroMapOptions) \<lparr>Path = ''d/b'', Type = Missing\<rparr>))
     = [\<lparr>content = replicate 1024 0, closeErr = None\<rparr>]
   \<and> snd (addDelta exampleGen zeroMapOptions ''rootfs'' 2000 (startLayer exampleGen zeroMapOptions)
         \<lparr>Path = ''d/a'', Type = Extra\<rparr>)
     = wrote (startLayer exampleGen zeroMapOptions)
         (tg_AddFile exampleGen (tg (startLayer exampleGen zeroMapOptions))
            ''d/a'' ''rootfs/d/a'' fileA)
   \<and> sealed (snd (addDelta exampleGen zeroMapOptions ''rootfs'' 2000
         (startLayer exampleGen zeroMapOptions) \<lparr>Path = ''d/a'', Type = Extra\<rparr>)) = []"
proof -
  have lstat: "tg_Lstat exampleGen (tg (startLayer exampleGen zeroMapOptions))
      (path_Join [''rootfs'', Path \<lparr>Path = ''d/a'', Type = Extra\<rparr>]) = Inr fileA"
    by (simp add: exampleGen_fields join_rootfs_a rootfs_def)
  have size: "uint64 (fi_Size fileA) = 5" by (simp add: uint64_def fileA_def)
  have close: "call_out (tg_twClose exampleGen (tg (startLayer exampleGen zeroMapOptions)))
      = replicate 1024 0"
    by (simp add: layers_eval tarGen_eval)
  show ?thesis
    using seals_exactly_when_over_budget [of "\<lparr>Path = ''d/b'', Type = Missing\<rparr>" exampleGen
        zeroMapOptions "''rootfs''" 900 "startLayer exampleGen zeroMapOptions" fileA]
      seals_exactly_when_over_budget [of "\<lparr>Path = ''d/a'', Type = Extra\<rparr>" exampleGen
        zeroMapOptions "''rootfs''" 2000 "startLayer exampleGen zeroMapOptions" fileA]
      lstat size close
    by (simp add: startLayer_fields join_rootfs_a Let_def sealed_wrote newLayer_sealed)
qed

text \<open>
  A whiteout on an empty layer under a budget of 1010 bytes: with a slack of 1024 bytes
  the predicted cost exceeds the budget, yet the generator seals nothing and delivers one
  stream.
\<close>

theorem splitter_slack_counterexample:
  "(0::nat) + (0 + 1024) > 1010
   \<and> (\<forall>srt. (case GenerateLayers exampleGen srt ''rootfs'' [\<lparr>Path = ''d/b'', Type = Missing\<rparr>]
                     None 1010 of
               Inl err \<Rightarrow> 0 | Inr ch \<Rightarrow> length ch) = 1)"
  by (simp add: layers_eval tarGen_eval)

subsection \<open>The size of a layer\<close>

lemma addDelta_bounded:
  assumes maxB: "0 < maxB"
    and new: "\<And>n. ok (tg_new ops n mo)"
    and af: "\<And>g0 g fi. Type d = Modified \<or> Type d = Extra \<Longrightarrow> ok g0 \<Longrightarrow> ok g \<Longrightarrow>
               tg_Lstat ops g0 (path_Join [path, Path d]) = Inr fi \<Longrightarrow>
               uint64 (fi_Size fi) \<le> M
               \<and> ok (call_tg (tg_AddFile ops g (Path d) (path_Join [path, Path d]) fi))
               \<and> length (call_out (tg_AddFile ops g (Path d) (path_Join [path, Path d]) fi))
                   \<le> uint64 (fi_Size fi) + E"
    and aw: "\<And>g. Type d = Missing \<Longrightarrow> ok g \<Longrightarrow>
               ok (call_tg (tg_AddWhiteout ops g (Path d)))
               \<and> length (call_out (tg_AddWhiteout ops g (Path d))) \<le> E"
    and cl: "\<And>g. ok g \<Longrightarrow> length (call_out (tg_twClose ops g)) \<le> T"
    and big: "maxB + 2 * M + E + 1000 < 2 ^ 64"
    and g: "ok (tg s)"
    and w: "written s = length (cur s)"
    and c: "length (cur s) \<le> maxB + M + E"
    and l: "\<forall>l\<in>set (sealed s). length (content l) \<le> maxB + M + E + T"
  shows "ok (tg (snd (addDelta ops mo path maxB s d)))
     \<and> written (snd (addDelta ops mo path maxB s d)) = length (cur (snd (addDelta ops mo path maxB s d)))
     \<and> length (cur (snd (addDelta ops mo path maxB s d))) \<le> maxB + M + E
     \<and> (\<forall>l\<in>set (sealed (snd (addDelta ops mo path maxB s d))). length (content l) \<le> maxB + M + E + T)"
proof -
  have step: "ok (tg (wrote s1 r))
       \<and> written (wrote s1 r) = length (cur (wrote s1 r))
       \<and> length (cur (wrote s1 r)) \<le> maxB + M + E
       \<and> (\<forall>l\<in>set (sealed (wrote s1 r)). length (content l) \<le> maxB + M + E + T)"
    if s1: "s1 = (if tooBig maxB (written s) fsz then newLayer ops mo s else s)"
      and fsz: "fsz \<le> M" and out: "length (call_out r) \<le> fsz + E"
      and okr: "ok (call_tg r)" for s1 r fsz
  proof (cases "tooBig maxB (written s) fsz")
    case True
    then have s1': "s1 = newLayer ops mo s" using s1 by simp
    have "length (cur s @ call_out (tg_twClose ops (tg s))) \<le> maxB + M + E + T"
      using c cl [OF g] by simp
    then have sealed1: "\<forall>l\<in>set (sealed s1). length (content l) \<le> maxB + M + E + T"
      using l by (simp add: s1' newLayer_sealed)
    have "length (call_out r) < 2 ^ 64" using out fsz big by linarith
    then have "u64 (length (call_out r)) = length (call_out r)" by (rule u64_small)
    then show ?thesis using sealed1 out fsz okr
      by (simp add: wrote_def s1' newLayer_fresh)
  next
    case False
    then have s1': "s1 = s" using s1 by simp
    have sum: "written s + fsz + 1000 < 2 ^ 64" using w c fsz big by linarith
    then have "u64 (u64 (written s + fsz) + 1000) = written s + fsz + 1000"
      by (simp add: u64_add1000)
    then have le: "written s + fsz + 1000 \<le> maxB" using False maxB by (simp add: tooBig_def)
    have "written s + length (call_out r) < 2 ^ 64" using le out big by linarith
    then have "u64 (written s + length (call_out r)) = written s + length (call_out r)"
      by (rule u64_small)
    then show ?thesis using le out w l okr
      by (simp add: wrote_def s1')
  qed
  have ok1: "ok (tg (if tooBig maxB (written s) fsz then newLayer ops mo s else s))" for fsz
    using g new by (simp add: newLayer_fresh)
  show ?thesis
  proof (cases "Type d = Modified \<or> Type d = Extra")
    case True
    show ?thesis
    proof (cases "tg_Lstat ops (tg s) (path_Join [path, Path d])")
      case (Inl err)
      then show ?thesis using True g w c l by (simp add: addDelta_def)
    next
      case (Inr fi)
      let ?s1 = "if tooBig maxB (written s) (uint64 (fi_Size fi)) then newLayer ops mo s else s"
      let ?r = "tg_AddFile ops (tg ?s1) (Path d) (path_Join [path, Path d]) fi"
      have r: "uint64 (fi_Size fi) \<le> M \<and> ok (call_tg ?r)
          \<and> length (call_out ?r) \<le> uint64 (fi_Size fi) + E"
        by (rule af [OF True g ok1 Inr])
      have eq: "snd (addDelta ops mo path maxB s d) = wrote ?s1 ?r"
        using True Inr by (simp add: addDelta_def Let_def)
      show ?thesis unfolding eq
        using step [OF refl, of "uint64 (fi_Size fi)" ?r] r by blast
    qed
  next
    case False
    show ?thesis
    proof (cases "Type d = Missing")
      case True
      let ?s1 = "if tooBig maxB (written s) 0 then newLayer ops mo s else s"
      let ?r = "tg_AddWhiteout ops (tg ?s1) (Path d)"
      have r: "ok (call_tg ?r) \<and> length (call_out ?r) \<le> 0 + E"
        using aw [OF True ok1 [of 0]] by simp
      have eq: "snd (addDelta ops mo path maxB s d) = wrote ?s1 ?r"
        using True False by (simp add: addDelta_def Let_def)
      show ?thesis unfolding eq
        using step [OF refl _ _ _, of 0 ?r] r by blast
    next
      case F2: False
      then show ?thesis using False g w c l by (simp add: addDelta_def)
    qed
  qed
qed

lemma produce_bounded:
  assumes maxB: "0 < maxB"
    and new: "\<And>n. ok (tg_new ops n mo)"
    and cl: "\<And>g. ok g \<Longrightarrow> length (call_out (tg_twClose ops g)) \<le> T"
    and big: "maxB + 2 * M + E + 1000 < 2 ^ 64"
  shows "(\<forall>d\<in>set ds. \<forall>g0 g fi. (Type d = Modified \<or> Type d = Extra) \<and> ok g0 \<and> ok g
            \<and> tg_Lstat ops g0 (path_Join [path, Path d]) = Inr fi
            \<longrightarrow> uint64 (fi_Size fi) \<le> M
               \<and> ok (call_tg (tg_AddFile ops g (Path d) (path_Join [path, Path d]) fi))
               \<and> length (call_out (tg_AddFile ops g (Path d) (path_Join [path, Path d]) fi))
                   \<le> uint64 (fi_Size fi) + E)
     \<Longrightarrow> (\<forall>d\<in>set ds. \<forall>g. Type d = Missing \<and> ok g
            \<longrightarrow> ok (call_tg (tg_AddWhiteout ops g (Path d)))
               \<and> length (call_out (tg_AddWhiteout ops g (Path d))) \<le> E)
     \<Longrightarrow> ok (tg s) \<Longrightarrow> written s = length (cur s) \<Longrightarrow> length (cur s) \<le> maxB + M + E
     \<Longrightarrow> (\<forall>l\<in>set (sealed s). length (content l) \<le> maxB + M + E + T)
     \<Longrightarrow> (\<forall>l\<in>set (channelOf (produce ops mo path maxB s ds)).
            length (content l) \<le> maxB + M + E + T)"
proof (induction ds arbitrary: s)
  case Nil
  have "length (call_out (tg_twClose ops (tg s))) \<le> T" using cl Nil.prems(3) by blast
  then show ?case using Nil.prems
    by (simp add: channelOf_def Let_def wrote_def)
next
  case (Cons d ds)
  let ?r = "addDelta ops mo path maxB s d"
  have af1: "Type d = Modified \<or> Type d = Extra \<Longrightarrow> ok g0 \<Longrightarrow> ok g \<Longrightarrow>
      tg_Lstat ops g0 (path_Join [path, Path d]) = Inr fi \<Longrightarrow>
      uint64 (fi_Size fi) \<le> M
      \<and> ok (call_tg (tg_AddFile ops g (Path d) (path_Join [path, Path d]) fi))
      \<and> length (call_out (tg_AddFile ops g (Path d) (path_Join [path, Path d]) fi))
          \<le> uint64 (fi_Size fi) + E"
    for g0 g fi using Cons.prems(1) by simp
  have aw1: "Type d = Missing \<Longrightarrow> ok g \<Longrightarrow>
      ok (call_tg (tg_AddWhiteout ops g (Path d)))
      \<and> length (call_out (tg_AddWhiteout ops g (Path d))) \<le> E"
    for g using Cons.prems(2) by simp
  have inv: "ok (tg (snd ?r)) \<and> written (snd ?r) = length (cur (snd ?r))
       \<and> length (cur (snd ?r)) \<le> maxB + M + E
       \<and> (\<forall>l\<in>set (sealed (snd ?r)). length (content l) \<le> maxB + M + E + T)"
    by (rule addDelta_bounded [OF maxB new af1 aw1 cl big Cons.prems(3) Cons.prems(4)
          Cons.prems(5) Cons.prems(6)])
  show ?case
  proof (cases "fst ?r")
    case None
    have af2: "\<forall>d\<in>set ds. \<forall>g0 g fi. (Type d = Modified \<or> Type d = Extra) \<and> ok g0 \<and> ok g
            \<and> tg_Lstat ops g0 (path_Join [path, Path d]) = Inr fi
            \<longrightarrow> uint64 (fi_Size fi) \<le> M
               \<and> ok (call_tg (tg_AddFile ops g (Path d) (path_Join [path, Path d]) fi))
               \<and> length (call_out (tg_AddFile ops g (Path d) (path_Join [path, Path d]) fi))
                   \<le> uint64 (fi_Size fi) + E"
      by (rule ballI, rule bspec [OF Cons.prems(1)], simp)
    have aw2: "\<forall>d\<in>set ds. \<forall>g. Type d = Missing \<and> ok g
            \<longrightarrow> ok (call_tg (tg_AddWhiteout ops g (Path d)))
               \<and> length (call_out (tg_AddWhiteout ops g (Path d))) \<le> E"
      by (rule ballI, rule bspec [OF Cons.prems(2)], simp)
    have "\<forall>l\<in>set (channelOf (produce ops mo path maxB (snd ?r) ds)). length (content l) \<le> maxB + M + E + T"
      using Cons.IH [where s = "snd ?r", OF af2 aw2] inv by blast
    then show ?thesis using None by (cases ?r) simp
  next
    case (Some err)
    then have "produce ops mo path maxB s (d # ds) = (Some err, snd ?r)"
      by (cases ?r) simp
    then show ?thesis using inv by (simp add: channelOf_def)
  qed
qed

text \<open>
  Claim C3, as amended. Let \<open>M\<close> bound the file sizes that \<open>Lstat\<close> reports for the
  \<open>Modified\<close> and \<open>Extra\<close> deltas of the list, let \<open>E\<close> bound what \<open>AddFile\<close> writes
  for such a delta beyond the size of its file and what \<open>AddWhiteout\<close> writes for a
  \<open>Missing\<close> delta of the list, and let \<open>T\<close> bound what the close of the tar writer
  writes, on generators that satisfy an invariant \<open>ok\<close>; the sums stay below \<open>2 ^ 64\<close>.
  Then every stream of a positive budget holds at most \<open>maxLayerBytes + M + E + T\<close>
  bytes, whatever order \<^verbatim>\<open>sort.Sort\<close> gives the deltas.
\<close>

theorem layers_bounded:
  assumes "0 < maxB"
    and "\<And>n. ok (tg_new ops n (optOrZero opt))"
    and "\<And>d g0 g fi. d \<in> set deltas \<Longrightarrow> Type d = Modified \<or> Type d = Extra \<Longrightarrow>
               ok g0 \<Longrightarrow> ok g \<Longrightarrow> tg_Lstat ops g0 (path_Join [path, Path d]) = Inr fi \<Longrightarrow>
               uint64 (fi_Size fi) \<le> M
               \<and> ok (call_tg (tg_AddFile ops g (Path d) (path_Join [path, Path d]) fi))
               \<and> length (call_out (tg_AddFile ops g (Path d) (path_Join [path, Path d]) fi))
                   \<le> uint64 (fi_Size fi) + E"
    and "\<And>d g. d \<in> set deltas \<Longrightarrow> Type d = Missing \<Longrightarrow> ok g \<Longrightarrow>
               ok (call_tg (tg_AddWhiteout ops g (Path d)))
               \<and> length (call_out (tg_AddWhiteout ops g (Path d))) \<le> E"
    and "\<And>g. ok g \<Longrightarrow> length (call_out (tg_twClose ops g)) \<le> T"
    and "maxB + 2 * M + E + 1000 < 2 ^ 64"
    and "GenerateLayers ops srt path deltas opt maxB = Inr ch"
    and "l \<in> set ch"
  shows "length (content l) \<le> maxB + M + E + T"
proof -
  have ch: "ch = channelOf (produce ops (optOrZero opt) path maxB
                (startLayer ops (optOrZero opt)) (sort_Sort srt deltas))"
    using assms(7) by (simp add: GenerateLayers_def goroutine_def)
  have af: "\<forall>d\<in>set (sort_Sort srt deltas). \<forall>g0 g fi.
              (Type d = Modified \<or> Type d = Extra) \<and> ok g0 \<and> ok g
              \<and> tg_Lstat ops g0 (path_Join [path, Path d]) = Inr fi
              \<longrightarrow> uint64 (fi_Size fi) \<le> M
                 \<and> ok (call_tg (tg_AddFile ops g (Path d) (path_Join [path, Path d]) fi))
                 \<and> length (call_out (tg_AddFile ops g (Path d) (path_Join [path, Path d]) fi))
                     \<le> uint64 (fi_Size fi) + E"
    using assms(3) unfolding sort_Sort_set by blast
  have aw: "\<forall>d\<in>set (sort_Sort srt deltas). \<forall>g. Type d = Missing \<and> ok g
              \<longrightarrow> ok (call_tg (tg_AddWhiteout ops g (Path d)))
                 \<and> length (call_out (tg_AddWhiteout ops g (Path d))) \<le> E"
    using assms(4) unfolding sort_Sort_set by blast
  have "\<forall>l\<in>set ch. length (content l) \<le> maxB + M + E + T"
    unfolding ch
    by (rule produce_bounded [OF assms(1) assms(2) assms(5) assms(6) af aw])
       (simp_all add: startLayer_def assms(2))
  then show ?thesis using assms(8) by blast
qed

lemma Writer_WriteHeader_bound:
  "tw_pad w < 512 \<Longrightarrow>
     length (fst (Writer_WriteHeader enc w h)) \<le> 511 + length (enc h)
     \<and> tw_pad (snd (snd (Writer_WriteHeader enc w h))) < 512"
  by (simp add: Writer_WriteHeader_def Writer_Flush_def)

lemma Writer_Write_bound:
  "length (fst (Writer_Write w b)) \<le> tw_nb w \<and> tw_pad (snd (snd (Writer_Write w b))) = tw_pad w"
  by (simp add: Writer_Write_def)

lemma Writer_WriteHeader_nb:
  "fst (snd (Writer_WriteHeader enc w h)) = None \<Longrightarrow> tw_nb (snd (snd (Writer_WriteHeader enc w h))) = hdr_Size h"
  by (simp add: Writer_WriteHeader_def Writer_Flush_def split: if_splits)

lemma Writer_Close_bound:
  "tw_pad w < 512 \<Longrightarrow> length (fst (Writer_Close w)) \<le> 1535"
  by (simp add: Writer_Close_def Writer_Flush_def)

lemma header_call_bound:
  assumes "length (enc h) \<le> K" and "tw_pad (tw g) < 512"
  shows "tw_pad (tw (call_tg (onWriter g (Writer_WriteHeader enc (tw g) h)))) < 512
     \<and> length (call_out (onWriter g (Writer_WriteHeader enc (tw g) h))) \<le> n + (511 + K)"
  using Writer_WriteHeader_bound [OF assms(2), of enc h] assms(1)
  by (simp add: onWriter_parts)

lemma nat_sint_le_unat: "nat (sint (w :: 64 word)) \<le> unat w"
proof (cases "0 \<le> sint w")
  case True
  have "sint w < 2 ^ 64" using sint_lt [of w] by simp
  then have "uint w = sint w" using True by (simp add: uint_sint take_bit_eq_mod)
  then show ?thesis by (simp add: unat_eq_nat_uint)
next
  case False
  then show ?thesis by simp
qed

lemma addRegular_bound:
  assumes enc: "\<And>h. hdr_Name h = hdr_Name base \<Longrightarrow> length (enc h) \<le> K"
    and pad: "tw_pad (tw g) < 512"
  shows "tw_pad (tw (call_tg (addRegular enc fs g base disk_path fi))) < 512
     \<and> length (call_out (addRegular enc fs g base disk_path fi)) \<le> uint64 (fi_Size fi) + (511 + K)"
proof -
  let ?h = "base\<lparr>hdr_Typeflag := TypeReg, hdr_Size := nat (sint (fi_Size fi))\<rparr>"
  let ?w = "Writer_WriteHeader enc (tw g) ?h"
  have "length (enc ?h) \<le> K" by (rule enc) simp
  then have hb: "length (fst ?w) \<le> 511 + K \<and> tw_pad (snd (snd ?w)) < 512"
    using Writer_WriteHeader_bound [OF pad, of enc ?h] by simp
  show ?thesis
  proof (cases "fst (snd ?w)")
    case (Some err)
    then show ?thesis using hb
      by (simp add: addRegular_def Let_def onWriter_parts)
  next
    case None
    have nb: "tw_nb (snd (snd ?w)) \<le> uint64 (fi_Size fi)"
      using Writer_WriteHeader_nb [OF None] nat_sint_le_unat [of "fi_Size fi"]
      by (simp add: uint64_def)
    show ?thesis
    proof (cases "fs_Open fs disk_path")
      case (Inl err)
      then show ?thesis using None hb
        by (simp add: addRegular_def Let_def call_out_def call_tg_def)
    next
      case (Inr body)
      have "length (fst (Writer_Write (snd (snd ?w)) body)) \<le> uint64 (fi_Size fi)
          \<and> tw_pad (snd (snd (Writer_Write (snd (snd ?w)) body))) < 512"
        using Writer_Write_bound [of "snd (snd ?w)" body] nb hb by simp
      then show ?thesis using None Inr hb
        by (simp add: addRegular_def Let_def call_out_def call_tg_def)
    qed
  qed
qed

lemma AddWhiteout_bound:
  assumes enc: "length (enc (emptyReg (whiteoutPath tar_path))) \<le> K"
    and pad: "tw_pad (tw g) < 512"
  shows "tw_pad (tw (call_tg (AddWhiteout enc g tar_path))) < 512
     \<and> length (call_out (AddWhiteout enc g tar_path)) \<le> n + (511 + K)"
  unfolding AddWhiteout_def
  by (rule header_call_bound [where enc = enc and K = K and g = g, OF enc pad])

lemma baseHeader_Name:
  "baseHeader fs opt tar_path disk_path fi = Inr base \<Longrightarrow>
     hdr_Name base = normalise tar_path (fi_Type fi = Directory)"
  by (auto simp add: baseHeader_def split: sum.splits)

lemma AddFile_bound:
  assumes enc: "\<And>h. hdr_Name h = normalise tar_path (fi_Type fi = Directory) \<Longrightarrow> length (enc h) \<le> K"
    and wh: "length (enc (emptyReg (whiteoutPath tar_path))) \<le> K"
    and pad: "tw_pad (tw g) < 512"
  shows "tw_pad (tw (call_tg (AddFile enc fs g tar_path disk_path fi))) < 512
     \<and> length (call_out (AddFile enc fs g tar_path disk_path fi)) \<le> uint64 (fi_Size fi) + (511 + K)"
proof -
  have skip: "tw_pad (tw (call_tg ([], e, g))) < 512
      \<and> length (call_out ([], e, g :: tarGenerator)) \<le> uint64 (fi_Size fi) + (511 + K)" for e
    using pad by (simp add: call_tg_def call_out_def)
  show ?thesis
  proof (cases "TranslateOverlayWhiteouts (mapOptions g) \<and> fi_Type fi = CharDevice
      \<and> fi_Major fi = 0 \<and> fi_Minor fi = 0")
    case True
    then have "AddFile enc fs g tar_path disk_path fi = AddWhiteout enc g tar_path"
      by (simp add: AddFile_def)
    then show ?thesis
      using AddWhiteout_bound [where enc = enc and K = K and g = g and tar_path = tar_path
          and n = "uint64 (fi_Size fi)", OF wh pad] by simp
  next
    case False
    show ?thesis
    proof (cases "baseHeader fs (mapOptions g) tar_path disk_path fi")
      case (Inl err)
      then show ?thesis using skip
        by (simp only: AddFile_def False if_False) simp
    next
      case (Inr base)
      have name: "hdr_Name base = normalise tar_path (fi_Type fi = Directory)"
        using Inr by (rule baseHeader_Name)
      have hd: "tw_pad (tw (call_tg (onWriter g (Writer_WriteHeader enc (tw g) h)))) < 512
          \<and> length (call_out (onWriter g (Writer_WriteHeader enc (tw g) h)))
              \<le> uint64 (fi_Size fi) + (511 + K)"
        if "hdr_Name h = hdr_Name base" for h
      proof -
        have "length (enc h) \<le> K" using enc that name by simp
        then show ?thesis
          by (rule header_call_bound [where enc = enc and K = K and g = g and h = h,
                OF _ pad])
      qed
      have enc': "\<And>h. hdr_Name h = hdr_Name base \<Longrightarrow> length (enc h) \<le> K"
        using enc name by simp
      have pad': "tw_pad (tw (g\<lparr>inodes := m\<rparr>)) < 512" for m using pad by simp
      note rg = addRegular_bound [OF enc' pad, where fi = fi]
      note rg' = addRegular_bound [OF enc' pad', where fi = fi]
      show ?thesis
        using Inr skip
        by (simp only: AddFile_def False if_False)
           (cases "fi_Type fi"; simp add: hd rg rg' split: option.split sum.split)
    qed
  qed
qed

lemma splitLast_no_slash: "CHR ''/'' \<notin> set p \<Longrightarrow> splitLast p = ([], p)"
  by (induction p) auto

lemma paxBlocks_length:
  "length (paxBlocks h) =
     (if length (hdr_Name h) \<le> 100 then 512
      else 1024 + length (hdr_Name h) + (512 - length (hdr_Name h) mod 512) mod 512)"
  by (simp add: paxBlocks_def nameBlock_length)

lemma whiteoutPath_longName: "whiteoutPath longName = ''etc/.wh.'' @ replicate 120 (CHR ''x'')"
  by (simp add: whiteoutPath_def normalise_def longName_def dirPart_def basename_def
      whPrefix_def splitLast_no_slash)

lemma sort_z_long_a:
  "sort_Sort srt [\<lparr>Path = ''z'', Type = Missing\<rparr>, \<lparr>Path = longName, Type = Missing\<rparr>,
                  \<lparr>Path = ''d/a'', Type = Extra\<rparr>]
     = [\<lparr>Path = ''d/a'', Type = Extra\<rparr>, \<lparr>Path = longName, Type = Missing\<rparr>,
        \<lparr>Path = ''z'', Type = Missing\<rparr>]"
  by (simp add: sort_Sort_distinct longName_def)

text \<open>
  The bound at a generator whose header grows with the name, under a budget of 2000 bytes:
  the file \<^verbatim>\<open>d/a\<close> of five bytes, a whiteout of a path with a long name, which takes three
  blocks, and a whiteout of \<^verbatim>\<open>z\<close>, which seals the first layer. The first layer holds 3584
  bytes and the second 1536.
\<close>

theorem layers_bounded_witness:
  "\<forall>srt.
     (case GenerateLayers (tarGen paxBlocks rootfs) srt ''rootfs''
             [\<lparr>Path = ''z'', Type = Missing\<rparr>, \<lparr>Path = longName, Type = Missing\<rparr>,
              \<lparr>Path = ''d/a'', Type = Extra\<rparr>] None 2000 of
        Inl err \<Rightarrow> False
      | Inr ch \<Rightarrow> map (\<lambda>l. length (content l)) ch = [3584, 1536]
                  \<and> list_all (\<lambda>l. length (content l) \<le> 2000 + 5 + 2047 + 1535) ch)"
proof
  fix srt
  let ?ok = "\<lambda>g. tw_pad (tw g) < 512"
  let ?ops = "tarGen paxBlocks rootfs"
  let ?deltas = "[\<lparr>Path = ''z'', Type = Missing\<rparr>, \<lparr>Path = longName, Type = Missing\<rparr>,
                  \<lparr>Path = ''d/a'', Type = Extra\<rparr>]"
  let ?hA = "\<lparr>hdr_Typeflag = TypeReg, hdr_Name = ''d/a'', hdr_Linkname = [], hdr_Size = 5,
              hdr_Mode = 420, hdr_Uid = 0, hdr_Gid = 0, hdr_Uname = [], hdr_Gname = [],
              hdr_ModTime = 0, hdr_Devmajor = 0, hdr_Devminor = 0, hdr_Xattrs = []\<rparr>"
  have lenA: "length (paxBlocks ?hA) = 512" by (simp add: paxBlocks_length)
  have lenL: "length (paxBlocks (emptyReg (whiteoutPath longName))) = 1536"
    by (simp add: paxBlocks_length whiteoutPath_longName emptyReg_def)
  have lenZ: "length (paxBlocks (emptyReg ''.wh.z'')) = 512"
    by (simp add: paxBlocks_length emptyReg_def)
  have lstat: "fs_Lstat rootfs ''rootfs/d/a'' = Inr fileA"
    by (simp add: rootfs_def)
  have joins: "path_Join [''rootfs'', ''d/a''] = ''rootfs/d/a''" by (rule join_rootfs_a)
  have size: "unat (fi_Size fileA) = 5" by (simp add: fileA_def)
  have run: "GenerateLayers ?ops srt ''rootfs'' ?deltas None 2000
      = Inr [\<lparr>content = paxBlocks ?hA @ [104, 101, 108, 108, 111] @ replicate 507 0
                 @ paxBlocks (emptyReg (whiteoutPath longName)) @ replicate 1024 0,
               closeErr = None\<rparr>,
             \<lparr>content = paxBlocks (emptyReg ''.wh.z'') @ replicate 1024 0, closeErr = None\<rparr>]"
    using AddFile_a [of paxBlocks, unfolded newTarGenerator_def]
    by (simp add: GenerateLayers_def goroutine_def sort_z_long_a channelOf_def addDelta_def
        tooBig_def u64_def uint64_def startLayer_fields Let_def wrote_def newLayer_def
        errors_Wrap_def optOrZero_def call_out_def call_err_def call_tg_def tarGen_fields
        lstat joins size newTarGenerator_def AddWhiteout_def onWriter_def
        Writer_WriteHeader_def Writer_Flush_def Writer_Close_def emptyReg_Size
        whiteoutPath_names lenA lenL lenZ)
  have new: "\<And>n. ?ok (tg_new ?ops n (optOrZero None))"
    by (simp add: tarGen_fields newTarGenerator_def)
  have af: "\<And>d g0 g fi. d \<in> set ?deltas \<Longrightarrow> Type d = Modified \<or> Type d = Extra \<Longrightarrow>
      ?ok g0 \<Longrightarrow> ?ok g \<Longrightarrow> tg_Lstat ?ops g0 (path_Join [''rootfs'', Path d]) = Inr fi \<Longrightarrow>
      uint64 (fi_Size fi) \<le> 5
      \<and> ?ok (call_tg (tg_AddFile ?ops g (Path d) (path_Join [''rootfs'', Path d]) fi))
      \<and> length (call_out (tg_AddFile ?ops g (Path d) (path_Join [''rootfs'', Path d]) fi))
          \<le> uint64 (fi_Size fi) + 2047"
  proof -
    fix d :: InodeDelta and g0 g :: tarGenerator and fi
    assume d: "d \<in> set ?deltas" and ty: "Type d = Modified \<or> Type d = Extra"
      and g: "?ok g" and ls: "tg_Lstat ?ops g0 (path_Join [''rootfs'', Path d]) = Inr fi"
    have p: "Path d = ''d/a''" using d ty by auto
    have fi: "fi = fileA" using ls by (simp add: p tarGen_fields joins lstat)
    have enc: "\<And>h. hdr_Name h = normalise ''d/a'' (fi_Type fileA = Directory)
        \<Longrightarrow> length (paxBlocks h) \<le> 1536"
      by (simp add: paxBlocks_length normalise_def fileA_def)
    have wh: "length (paxBlocks (emptyReg (whiteoutPath ''d/a''))) \<le> 1536"
      by (simp add: paxBlocks_length emptyReg_def whiteoutPath_def normalise_def dirPart_def
          basename_def whPrefix_def)
    show "uint64 (fi_Size fi) \<le> 5
      \<and> ?ok (call_tg (tg_AddFile ?ops g (Path d) (path_Join [''rootfs'', Path d]) fi))
      \<and> length (call_out (tg_AddFile ?ops g (Path d) (path_Join [''rootfs'', Path d]) fi))
          \<le> uint64 (fi_Size fi) + 2047"
      using AddFile_bound [where enc = paxBlocks and K = 1536 and tar_path = "''d/a''"
          and fi = fileA and g = g and fs = rootfs and disk_path = "''rootfs/d/a''",
          OF enc wh g]
      by (simp add: p fi tarGen_fields joins uint64_def size)
  qed
  have aw: "\<And>d g. d \<in> set ?deltas \<Longrightarrow> Type d = Missing \<Longrightarrow> ?ok g \<Longrightarrow>
      ?ok (call_tg (tg_AddWhiteout ?ops g (Path d)))
      \<and> length (call_out (tg_AddWhiteout ?ops g (Path d))) \<le> 2047"
  proof -
    fix d :: InodeDelta and g :: tarGenerator
    assume d: "d \<in> set ?deltas" and ty: "Type d = Missing" and g: "?ok g"
    have "Path d = ''z'' \<or> Path d = longName" using d ty by auto
    then have "length (paxBlocks (emptyReg (whiteoutPath (Path d)))) \<le> 1536"
      using lenL lenZ by (auto simp add: whiteoutPath_names)
    then show "?ok (call_tg (tg_AddWhiteout ?ops g (Path d)))
      \<and> length (call_out (tg_AddWhiteout ?ops g (Path d))) \<le> 2047"
      using AddWhiteout_bound [where enc = paxBlocks and K = 1536 and g = g
          and tar_path = "Path d" and n = 0] g
      by (simp add: tarGen_fields)
  qed
  have cl: "\<And>g. ?ok g \<Longrightarrow> length (call_out (tg_twClose ?ops g)) \<le> 1535"
    using Writer_Close_bound by (simp add: tarGen_fields onWriter_parts)
  have big: "(2000::nat) + 2 * 5 + 2047 + 1000 < 2 ^ 64" by simp
  have pos: "(0::nat) < 2000" by simp
  have "length (content l) \<le> 2000 + 5 + 2047 + 1535"
    if "l \<in> set [\<lparr>content = paxBlocks ?hA @ [104, 101, 108, 108, 111] @ replicate 507 0
                 @ paxBlocks (emptyReg (whiteoutPath longName)) @ replicate 1024 0,
               closeErr = None\<rparr>,
             \<lparr>content = paxBlocks (emptyReg ''.wh.z'') @ replicate 1024 0, closeErr = None\<rparr>]"
    for l
    using layers_bounded [where ok = ?ok and ops = ?ops and opt = None and M = 5
        and E = 2047 and T = 1535 and maxB = 2000 and path = "''rootfs''" and srt = srt
        and deltas = ?deltas and l = l, OF pos new af aw cl big run that] .
  then show "case GenerateLayers ?ops srt ''rootfs'' ?deltas None 2000 of
        Inl err \<Rightarrow> False
      | Inr ch \<Rightarrow> map (\<lambda>l. length (content l)) ch = [3584, 1536]
                  \<and> list_all (\<lambda>l. length (content l) \<le> 2000 + 5 + 2047 + 1535) ch"
    unfolding run by (simp add: list_all_iff lenA lenL lenZ)
qed

text \<open>
  No delta and a budget of 1000 bytes: the one stream is the end-of-archive marker of 1024
  bytes, more than the budget and the largest file (there is none) together.
\<close>

theorem layer_bound_counterexample:
  "\<forall>srt. GenerateLayers exampleGen srt ''rootfs'' [] None 1000
     = Inr [\<lparr>content = replicate 1024 0, closeErr = None\<rparr>]
   \<and> \<not> length (replicate 1024 (0::byte)) \<le> 1000 + 0"
  by (simp add: layers_eval tarGen_eval)

subsection \<open>Deltas by kind\<close>

lemma produce_append:
  "produce ops mo path maxB s (pre @ post) =
     (case deltaLoop ops mo path maxB s pre of
        (Some err, s') \<Rightarrow> (Some err, s')
      | (None, s') \<Rightarrow> produce ops mo path maxB s' post)"
  by (simp add: produce_def deltaLoop_append split: prod.splits option.splits)

lemma produce_filter_Same:
  "produce ops mo path maxB s (filter (\<lambda>d. Type d \<noteq> Same) ds) = produce ops mo path maxB s ds"
proof (induction ds arbitrary: s)
  case Nil
  show ?case by simp
next
  case (Cons d ds)
  show ?case
  proof (cases "Type d = Same")
    case True
    then show ?thesis using Cons.IH by (simp add: addDelta_Same)
  next
    case False
    then show ?thesis using Cons.IH by (simp split: prod.splits option.splits)
  qed
qed

lemma addDelta_Missing:
  assumes "Type d = Missing"
  shows "(let seal = tooBig maxB (written s) 0;
              r = tg_AddWhiteout ops
                    (if seal then tg_new ops (Suc (length (sealed s))) mo else tg s) (Path d)
          in addDelta ops mo path maxB s d =
               (errors_Wrap (call_err r) ''generate whiteout layer file'',
                \<lparr>sealed = (if seal
                            then sealed s @ [\<lparr>content = cur s @ call_out (tg_twClose ops (tg s)),
                                              closeErr = None\<rparr>]
                            else sealed s),
                  cur = (if seal then [] else cur s) @ call_out r,
                  written = u64 ((if seal then 0 else written s) + length (call_out r)),
                  tg = call_tg r\<rparr>))"
  using assms by (simp add: addDelta_def Let_def wrote_def newLayer_def)

lemma addDelta_add:
  assumes "Type d = Modified \<or> Type d = Extra"
    and "tg_Lstat ops (tg s) (path_Join [path, Path d]) = Inr fi"
  shows "(let seal = tooBig maxB (written s) (uint64 (fi_Size fi));
              r = tg_AddFile ops
                    (if seal then tg_new ops (Suc (length (sealed s))) mo else tg s)
                    (Path d) (path_Join [path, Path d]) fi
          in addDelta ops mo path maxB s d =
               (errors_Wrap (call_err r) ''generate layer file'',
                \<lparr>sealed = (if seal
                            then sealed s @ [\<lparr>content = cur s @ call_out (tg_twClose ops (tg s)),
                                              closeErr = None\<rparr>]
                            else sealed s),
                  cur = (if seal then [] else cur s) @ call_out r,
                  written = u64 ((if seal then 0 else written s) + length (call_out r)),
                  tg = call_tg r\<rparr>))"
  using assms by (auto simp add: addDelta_def Let_def wrote_def newLayer_def)

text \<open>
  Claim C5, as amended. One iteration of the loop, by the kind of its delta. For \<open>Same\<close>
  it leaves the state as it is. For \<open>Missing\<close> it applies the budget test with the size
  0 and calls \<open>AddWhiteout\<close> on the path. For \<open>Modified\<close> and \<open>Extra\<close> it calls
  \<open>Lstat\<close> on the path under the root; when that fails it ends the run with
  \<^verbatim>\<open>add file lstat\<close> and has written nothing; otherwise it applies the budget test with the
  size found and calls \<open>AddFile\<close> on the path and the file information. When the budget
  test fires, the iteration first writes the close of the tar writer to the current
  stream and seals it, and the call is made on a new generator and starts the next stream;
  otherwise what the call writes is appended to the current stream. An error of the call
  ends the run under its context string.

  The loop runs one iteration for every delta of the input, in the order \<^verbatim>\<open>sort.Sort\<close>
  leaves them: a delta that no error comes before is consumed in the state that the deltas
  before it left. The deltas of kind \<open>Same\<close> can be struck from the sorted list without a
  change to what the channel delivers.
\<close>

theorem delta_consumed_by_kind:
  "(Type d = Same \<longrightarrow> addDelta ops mo path maxB s d = (None, s))
   \<and> (Type d = Missing \<longrightarrow>
        (let seal = tooBig maxB (written s) 0;
             r = tg_AddWhiteout ops
                   (if seal then tg_new ops (Suc (length (sealed s))) mo else tg s) (Path d)
         in addDelta ops mo path maxB s d =
              (errors_Wrap (call_err r) ''generate whiteout layer file'',
               \<lparr>sealed = (if seal
                           then sealed s @ [\<lparr>content = cur s @ call_out (tg_twClose ops (tg s)),
                                             closeErr = None\<rparr>]
                           else sealed s),
                 cur = (if seal then [] else cur s) @ call_out r,
                 written = u64 ((if seal then 0 else written s) + length (call_out r)),
                 tg = call_tg r\<rparr>)))
   \<and> ((Type d = Modified \<or> Type d = Extra) \<longrightarrow>
        (case tg_Lstat ops (tg s) (path_Join [path, Path d]) of
           Inl err \<Rightarrow> addDelta ops mo path maxB s d = (Some (Wrap err ''add file lstat''), s)
         | Inr fi \<Rightarrow>
             (let seal = tooBig maxB (written s) (uint64 (fi_Size fi));
                  r = tg_AddFile ops
                        (if seal then tg_new ops (Suc (length (sealed s))) mo else tg s)
                        (Path d) (path_Join [path, Path d]) fi
              in addDelta ops mo path maxB s d =
                   (errors_Wrap (call_err r) ''generate layer file'',
                    \<lparr>sealed = (if seal
                                then sealed s @ [\<lparr>content = cur s @ call_out (tg_twClose ops (tg s)),
                                                  closeErr = None\<rparr>]
                                else sealed s),
                      cur = (if seal then [] else cur s) @ call_out r,
                      written = u64 ((if seal then 0 else written s) + length (call_out r)),
                      tg = call_tg r\<rparr>))))
   \<and> mset (sort_Sort srt deltas) = mset deltas
   \<and> (sort_Sort srt deltas = pre @ d # post
        \<and> deltaLoop ops (optOrZero opt) path maxB (startLayer ops (optOrZero opt)) pre = (None, t)
      \<longrightarrow> GenerateLayers ops srt path deltas opt maxB =
            Inr (channelOf
              (case addDelta ops (optOrZero opt) path maxB t d of
                 (Some err, s') \<Rightarrow> (Some err, s')
               | (None, s') \<Rightarrow> produce ops (optOrZero opt) path maxB s' post)))
   \<and> GenerateLayers ops srt path deltas opt maxB =
        Inr (channelOf (produce ops (optOrZero opt) path maxB (startLayer ops (optOrZero opt))
               (filter (\<lambda>d. Type d \<noteq> Same) (sort_Sort srt deltas))))"
proof -
  have same: "Type d = Same \<longrightarrow> addDelta ops mo path maxB s d = (None, s)"
    by (simp add: addDelta_Same)
  have missing: "Type d = Missing \<longrightarrow>
        (let seal = tooBig maxB (written s) 0;
             r = tg_AddWhiteout ops
                   (if seal then tg_new ops (Suc (length (sealed s))) mo else tg s) (Path d)
         in addDelta ops mo path maxB s d =
              (errors_Wrap (call_err r) ''generate whiteout layer file'',
               \<lparr>sealed = (if seal
                           then sealed s @ [\<lparr>content = cur s @ call_out (tg_twClose ops (tg s)),
                                             closeErr = None\<rparr>]
                           else sealed s),
                 cur = (if seal then [] else cur s) @ call_out r,
                 written = u64 ((if seal then 0 else written s) + length (call_out r)),
                 tg = call_tg r\<rparr>))"
    by (rule impI) (rule addDelta_Missing)
  have add: "(Type d = Modified \<or> Type d = Extra) \<longrightarrow>
        (case tg_Lstat ops (tg s) (path_Join [path, Path d]) of
           Inl err \<Rightarrow> addDelta ops mo path maxB s d = (Some (Wrap err ''add file lstat''), s)
         | Inr fi \<Rightarrow>
             (let seal = tooBig maxB (written s) (uint64 (fi_Size fi));
                  r = tg_AddFile ops
                        (if seal then tg_new ops (Suc (length (sealed s))) mo else tg s)
                        (Path d) (path_Join [path, Path d]) fi
              in addDelta ops mo path maxB s d =
                   (errors_Wrap (call_err r) ''generate layer file'',
                    \<lparr>sealed = (if seal
                                then sealed s @ [\<lparr>content = cur s @ call_out (tg_twClose ops (tg s)),
                                                  closeErr = None\<rparr>]
                                else sealed s),
                      cur = (if seal then [] else cur s) @ call_out r,
                      written = u64 ((if seal then 0 else written s) + length (call_out r)),
                      tg = call_tg r\<rparr>)))"
  proof (cases "tg_Lstat ops (tg s) (path_Join [path, Path d])")
    case (Inl err)
    then show ?thesis by (simp add: addDelta_def)
  next
    case (Inr fi)
    show ?thesis using addDelta_add [OF _ Inr, of maxB mo] Inr by simp
  qed
  have reached: "sort_Sort srt deltas = pre @ d # post
        \<and> deltaLoop ops (optOrZero opt) path maxB (startLayer ops (optOrZero opt)) pre = (None, t)
      \<longrightarrow> GenerateLayers ops srt path deltas opt maxB =
            Inr (channelOf
              (case addDelta ops (optOrZero opt) path maxB t d of
                 (Some err, s') \<Rightarrow> (Some err, s')
               | (None, s') \<Rightarrow> produce ops (optOrZero opt) path maxB s' post))"
    by (simp add: GenerateLayers_def goroutine_def produce_append)
  have struck: "GenerateLayers ops srt path deltas opt maxB =
        Inr (channelOf (produce ops (optOrZero opt) path maxB (startLayer ops (optOrZero opt))
               (filter (\<lambda>d. Type d \<noteq> Same) (sort_Sort srt deltas))))"
    by (simp add: GenerateLayers_def goroutine_def produce_filter_Same)
  show ?thesis
    by (rule conjI same missing add sort_Sort_mset reached struck)+
qed

text \<open>
  The four kinds at the example generator, on the first layer while it is empty: a delta
  of kind \<open>Same\<close>; a whiteout under a budget of 900 bytes, which seals the layer with the
  end-of-archive marker and starts the next; the file \<^verbatim>\<open>d/a\<close> under a budget of 2000 bytes;
  a modified path that is not on disk. And a whole run under a budget of 900 bytes: the
  file \<^verbatim>\<open>d/a\<close> and the whiteout of \<^verbatim>\<open>d/b\<close> each seal the layer before them.
\<close>

theorem delta_consumed_by_kind_witness:
  "addDelta exampleGen zeroMapOptions ''rootfs'' 900 (startLayer exampleGen zeroMapOptions)
       \<lparr>Path = ''d/c'', Type = Same\<rparr> = (None, startLayer exampleGen zeroMapOptions)
   \<and> addDelta exampleGen zeroMapOptions ''rootfs'' 900 (startLayer exampleGen zeroMapOptions)
       \<lparr>Path = ''d/b'', Type = Missing\<rparr>
       = (None, \<lparr>sealed = [\<lparr>content = replicate 1024 0, closeErr = None\<rparr>],
                  cur = nameBlock (emptyReg ''d/.wh.b''), written = 512,
                  tg = newTarGenerator 1 zeroMapOptions\<rparr>)
   \<and> addDelta exampleGen zeroMapOptions ''rootfs'' 2000 (startLayer exampleGen zeroMapOptions)
       \<lparr>Path = ''d/a'', Type = Extra\<rparr>
       = (None, \<lparr>sealed = [],
                  cur = nameBlock \<lparr>hdr_Typeflag = TypeReg, hdr_Name = ''d/a'', hdr_Linkname = [],
                                   hdr_Size = 5, hdr_Mode = 420, hdr_Uid = 0, hdr_Gid = 0,
                                   hdr_Uname = [], hdr_Gname = [], hdr_ModTime = 0,
                                   hdr_Devmajor = 0, hdr_Devminor = 0, hdr_Xattrs = []\<rparr>
                        @ [104, 101, 108, 108, 111],
                  written = 517,
                  tg = \<lparr>tw = \<lparr>tw_nb = 0, tw_pad = 507\<rparr>, mapOptions = zeroMapOptions,
                        inodes = (\<lambda>_. None)\<rparr>\<rparr>)
   \<and> addDelta exampleGen zeroMapOptions ''rootfs'' 2000 (startLayer exampleGen zeroMapOptions)
       \<lparr>Path = ''d/b'', Type = Modified\<rparr>
       = (Some (Wrap (Cause ''ENOENT'') ''add file lstat''), startLayer exampleGen zeroMapOptions)
   \<and> (\<forall>srt. GenerateLayers exampleGen srt ''rootfs''
               [\<lparr>Path = ''d/c'', Type = Same\<rparr>, \<lparr>Path = ''d/b'', Type = Missing\<rparr>,
                \<lparr>Path = ''d/a'', Type = Extra\<rparr>] None 900
        = Inr [\<lparr>content = replicate 1024 0, closeErr = None\<rparr>,
               \<lparr>content =
                  nameBlock \<lparr>hdr_Typeflag = TypeReg, hdr_Name = ''d/a'', hdr_Linkname = [],
                             hdr_Size = 5, hdr_Mode = 420, hdr_Uid = 0, hdr_Gid = 0,
                             hdr_Uname = [], hdr_Gname = [], hdr_ModTime = 0,
                             hdr_Devmajor = 0, hdr_Devminor = 0, hdr_Xattrs = []\<rparr>
                  @ [104, 101, 108, 108, 111] @ replicate 507 0 @ replicate 1024 0,
                closeErr = None\<rparr>,
               \<lparr>content = nameBlock (emptyReg ''d/.wh.b'') @ replicate 1024 0,
                closeErr = None\<rparr>])"
proof -
  let ?s0 = "startLayer exampleGen zeroMapOptions"
  let ?hA = "\<lparr>hdr_Typeflag = TypeReg, hdr_Name = ''d/a'', hdr_Linkname = [],
              hdr_Size = 5, hdr_Mode = 420, hdr_Uid = 0, hdr_Gid = 0,
              hdr_Uname = [], hdr_Gname = [], hdr_ModTime = 0,
              hdr_Devmajor = 0, hdr_Devminor = 0, hdr_Xattrs = []\<rparr>"
  let ?s1 = "\<lparr>sealed = [\<lparr>content = replicate 1024 0, closeErr = None\<rparr>],
              cur = nameBlock ?hA @ [104, 101, 108, 108, 111], written = 517,
              tg = \<lparr>tw = \<lparr>tw_nb = 0, tw_pad = 507\<rparr>, mapOptions = zeroMapOptions,
                    inodes = (\<lambda>_. None)\<rparr>\<rparr>"
  have a: "fs_Lstat rootfs ''rootfs/d/a'' = Inr fileA"
    by (simp add: rootfs_def)
  have b: "fs_Lstat rootfs ''rootfs/d/b'' = Inl (Cause ''ENOENT'')"
    by (simp add: rootfs_def)
  have size: "unat (fi_Size fileA) = 5" by (simp add: fileA_def)
  note eval = tooBig_def u64_def uint64_def startLayer_fields Let_def errors_Wrap_def
    call_out_def call_err_def call_tg_def exampleGen_fields newTarGenerator_def
    AddWhiteout_def onWriter_def Writer_WriteHeader_def Writer_Flush_def Writer_Close_def
    emptyReg_Size whiteoutPath_names nameBlock_length size join_rootfs_a join_rootfs_b
  have same: "addDelta exampleGen zeroMapOptions ''rootfs'' 900 ?s0
       \<lparr>Path = ''d/c'', Type = Same\<rparr> = (None, ?s0)"
    using delta_consumed_by_kind [where d = "\<lparr>Path = ''d/c'', Type = Same\<rparr>"
        and ops = exampleGen and mo = zeroMapOptions and path = "''rootfs''" and maxB = 900
        and s = ?s0, THEN conjunct1]
    by simp
  have missing: "addDelta exampleGen zeroMapOptions ''rootfs'' 900 ?s0
       \<lparr>Path = ''d/b'', Type = Missing\<rparr>
       = (None, \<lparr>sealed = [\<lparr>content = replicate 1024 0, closeErr = None\<rparr>],
                  cur = nameBlock (emptyReg ''d/.wh.b''), written = 512,
                  tg = newTarGenerator 1 zeroMapOptions\<rparr>)"
    using delta_consumed_by_kind [where d = "\<lparr>Path = ''d/b'', Type = Missing\<rparr>"
        and ops = exampleGen and mo = zeroMapOptions and path = "''rootfs''" and maxB = 900
        and s = ?s0, THEN conjunct2, THEN conjunct1]
    by (simp add: eval)
  have extra: "addDelta exampleGen zeroMapOptions ''rootfs'' 2000 ?s0
       \<lparr>Path = ''d/a'', Type = Extra\<rparr>
       = (None, \<lparr>sealed = [], cur = nameBlock ?hA @ [104, 101, 108, 108, 111], written = 517,
                  tg = \<lparr>tw = \<lparr>tw_nb = 0, tw_pad = 507\<rparr>, mapOptions = zeroMapOptions,
                        inodes = (\<lambda>_. None)\<rparr>\<rparr>)"
    using delta_consumed_by_kind [where d = "\<lparr>Path = ''d/a'', Type = Extra\<rparr>"
        and ops = exampleGen and mo = zeroMapOptions and path = "''rootfs''" and maxB = 2000
        and s = ?s0, THEN conjunct2, THEN conjunct2, THEN conjunct1]
      AddFile_a [of nameBlock, unfolded newTarGenerator_def]
    by (simp add: eval a)
  have modified: "addDelta exampleGen zeroMapOptions ''rootfs'' 2000 ?s0
       \<lparr>Path = ''d/b'', Type = Modified\<rparr>
       = (Some (Wrap (Cause ''ENOENT'') ''add file lstat''), ?s0)"
    using delta_consumed_by_kind [where d = "\<lparr>Path = ''d/b'', Type = Modified\<rparr>"
        and ops = exampleGen and mo = zeroMapOptions and path = "''rootfs''" and maxB = 2000
        and s = ?s0, THEN conjunct2, THEN conjunct2, THEN conjunct1]
    by (simp add: eval b)
  have run: "GenerateLayers exampleGen srt ''rootfs''
               [\<lparr>Path = ''d/c'', Type = Same\<rparr>, \<lparr>Path = ''d/b'', Type = Missing\<rparr>,
                \<lparr>Path = ''d/a'', Type = Extra\<rparr>] None 900
        = Inr [\<lparr>content = replicate 1024 0, closeErr = None\<rparr>,
               \<lparr>content = nameBlock ?hA @ [104, 101, 108, 108, 111] @ replicate 507 0
                  @ replicate 1024 0,
                closeErr = None\<rparr>,
               \<lparr>content = nameBlock (emptyReg ''d/.wh.b'') @ replicate 1024 0,
                closeErr = None\<rparr>]" for srt
  proof -
    have sorted: "sort_Sort srt [\<lparr>Path = ''d/c'', Type = Same\<rparr>,
          \<lparr>Path = ''d/b'', Type = Missing\<rparr>, \<lparr>Path = ''d/a'', Type = Extra\<rparr>]
        = [\<lparr>Path = ''d/a'', Type = Extra\<rparr>] @ \<lparr>Path = ''d/b'', Type = Missing\<rparr>
            # [\<lparr>Path = ''d/c'', Type = Same\<rparr>]"
      by (simp add: sort_Sort_distinct)
    have first: "deltaLoop exampleGen (optOrZero None) ''rootfs'' 900
          (startLayer exampleGen (optOrZero None)) [\<lparr>Path = ''d/a'', Type = Extra\<rparr>]
        = (None, ?s1)"
      using AddFile_a [of nameBlock, unfolded newTarGenerator_def]
      by (simp add: addDelta_def wrote_def newLayer_def optOrZero_def eval a)
    show ?thesis
      using delta_consumed_by_kind [where d = "\<lparr>Path = ''d/b'', Type = Missing\<rparr>"
          and ops = exampleGen and path = "''rootfs''" and maxB = 900 and srt = srt
          and deltas = "[\<lparr>Path = ''d/c'', Type = Same\<rparr>, \<lparr>Path = ''d/b'', Type = Missing\<rparr>,
                         \<lparr>Path = ''d/a'', Type = Extra\<rparr>]"
          and pre = "[\<lparr>Path = ''d/a'', Type = Extra\<rparr>]" and post = "[\<lparr>Path = ''d/c'', Type = Same\<rparr>]"
          and opt = None and t = ?s1 and mo = zeroMapOptions and s = ?s1,
          THEN conjunct2, THEN conjunct2, THEN conjunct2, THEN conjunct2, THEN conjunct1]
        sorted first
      by (simp add: addDelta_def wrote_def newLayer_def optOrZero_def channelOf_def
          zeroMapOptions_def eval)
  qed
  show ?thesis using same missing extra modified run by simp
qed

text \<open>
  What \<open>AddFile\<close> writes need not be an entry for the file on disk. The character
  device \<^verbatim>\<open>test\<close> as an \<open>Extra\<close> delta, under \<^verbatim>\<open>translate_overlay_whiteouts\<close>: the one entry
  of the layer is the whiteout \<^verbatim>\<open>.wh.test\<close>. And a \<open>Modified\<close> delta of a path that
  \<open>Lstat\<close> does not find: the layer holds no entry and is closed with the error.
\<close>

theorem delta_kind_counterexample:
  "\<forall>srt.
     GenerateLayers (tarGen nameBlock overlayDir) srt ''/dir'' [\<lparr>Path = ''test'', Type = Extra\<rparr>]
         (Some overlayOptions) 0
       = Inr [\<lparr>content = nameBlock (emptyReg ''.wh.test'') @ replicate 1024 0, closeErr = None\<rparr>]
     \<and> GenerateLayers exampleGen srt ''rootfs'' [\<lparr>Path = ''d/b'', Type = Modified\<rparr>] None 0
       = Inr [\<lparr>content = [],
               closeErr = Some (Wrap (Wrap (Cause ''ENOENT'') ''add file lstat'') ''generate layer'')\<rparr>]"
proof
  fix srt
  have join: "path_Join [''/dir'', ''test''] = ''/dir/test''"
    by (simp add: path_Join_def path_Clean_def)
  have node: "fs_Lstat overlayDir ''/dir/test'' = Inr testNode"
    by (simp add: overlayDir_def)
  have add: "AddFile nameBlock overlayDir (newTarGenerator 0 overlayOptions) ''test'' ''/dir/test''
      testNode = (nameBlock (emptyReg ''.wh.test''), None, newTarGenerator 0 overlayOptions)"
    by (simp add: AddFile_def testNode_def newTarGenerator_def overlayOptions_def
        AddWhiteout_def onWriter_def Writer_WriteHeader_def Writer_Flush_def
        whiteoutPath_names emptyReg_def)
  have one: "GenerateLayers (tarGen nameBlock overlayDir) srt ''/dir''
        [\<lparr>Path = ''test'', Type = Extra\<rparr>] (Some overlayOptions) 0
     = Inr [\<lparr>content = nameBlock (emptyReg ''.wh.test'') @ replicate 1024 0, closeErr = None\<rparr>]"
    using add
    by (simp add: GenerateLayers_def goroutine_def sort_Sort_distinct channelOf_def addDelta_def
        tooBig_def startLayer_def Let_def wrote_def errors_Wrap_def optOrZero_def
        call_out_def call_err_def call_tg_def tarGen_def join node
        newTarGenerator_def onWriter_def Writer_Flush_def Writer_Close_def)
  have lstat: "fs_Lstat rootfs ''rootfs/d/b'' = Inl (Cause ''ENOENT'')"
    by (simp add: rootfs_def)
  have two: "GenerateLayers exampleGen srt ''rootfs'' [\<lparr>Path = ''d/b'', Type = Modified\<rparr>] None 0
     = Inr [\<lparr>content = [],
             closeErr = Some (Wrap (Wrap (Cause ''ENOENT'') ''add file lstat'') ''generate layer'')\<rparr>]"
    by (simp add: GenerateLayers_def goroutine_def sort_Sort_distinct channelOf_def addDelta_def
        startLayer_def errors_Wrap_def exampleGen_fields join_rootfs_b lstat)
  show "GenerateLayers (tarGen nameBlock overlayDir) srt ''/dir'' [\<lparr>Path = ''test'', Type = Extra\<rparr>]
         (Some overlayOptions) 0
       = Inr [\<lparr>content = nameBlock (emptyReg ''.wh.test'') @ replicate 1024 0, closeErr = None\<rparr>]
     \<and> GenerateLayers exampleGen srt ''rootfs'' [\<lparr>Path = ''d/b'', Type = Modified\<rparr>] None 0
       = Inr [\<lparr>content = [],
               closeErr = Some (Wrap (Wrap (Cause ''ENOENT'') ''add file lstat'') ''generate layer'')\<rparr>]"
    using one two by simp
qed

subsection \<open>The empty diff\<close>

lemma produce_all_Same:
  "\<forall>d\<in>set ds. Type d = Same \<Longrightarrow>
     produce ops mo path maxB s ds = produce ops mo path maxB s []"
  by (induction ds) (simp_all add: addDelta_Same)

text \<open>
  Claim C6. For a delta list that is empty or holds deltas of kind \<open>Same\<close> only,
  \<open>GenerateLayers\<close> delivers exactly one stream, for every budget, and the stream holds
  exactly what closing a tar generator that got no entry writes. For the tar generator of
  section 4.3 of the specification that is the end-of-archive marker, 1024 zero bytes, and
  the stream is closed without an error.
\<close>

theorem empty_diff_is_end_of_archive:
  assumes "\<forall>d\<in>set deltas. Type d = Same"
  shows "GenerateLayers ops srt path deltas opt maxB =
       Inr [\<lparr>content = call_out (tg_twClose ops (tg_new ops 0 (optOrZero opt))),
             closeErr = errors_Wrap
               (errors_Wrap (call_err (tg_twClose ops (tg_new ops 0 (optOrZero opt))))
                  ''close tar writer'') ''generate layer''\<rparr>]
     \<and> GenerateLayers (tarGen enc fs) srt path deltas opt maxB =
       Inr [\<lparr>content = replicate 1024 0, closeErr = None\<rparr>]"
proof -
  have same: "\<forall>d\<in>set (sort_Sort srt deltas). Type d = Same"
    using assms by (simp add: sort_Sort_set)
  have "GenerateLayers ops' srt path deltas opt maxB =
       Inr [\<lparr>content = call_out (tg_twClose ops' (tg_new ops' 0 (optOrZero opt))),
             closeErr = errors_Wrap
               (errors_Wrap (call_err (tg_twClose ops' (tg_new ops' 0 (optOrZero opt))))
                  ''close tar writer'') ''generate layer''\<rparr>]" for ops' :: "'b TarGen"
    by (simp add: GenerateLayers_def goroutine_def produce_all_Same [OF same] channelOf_def
        Let_def wrote_def startLayer_fields)
  note gen = this
  show ?thesis
    using gen [of ops] gen [of "tarGen enc fs"]
    by (simp add: tarGen_fields fresh_Close call_out_def call_err_def errors_Wrap_def)
qed

text \<open>The empty delta list, and two deltas of kind \<open>Same\<close> under a budget.\<close>

theorem empty_diff_is_end_of_archive_witness:
  "\<forall>srt.
     GenerateLayers exampleGen srt ''rootfs'' [] None 0
         = Inr [\<lparr>content = replicate 1024 0, closeErr = None\<rparr>]
     \<and> GenerateLayers exampleGen srt ''rootfs''
          [\<lparr>Path = ''d/a'', Type = Same\<rparr>, \<lparr>Path = ''d/b'', Type = Same\<rparr>] None 1500
         = Inr [\<lparr>content = replicate 1024 0, closeErr = None\<rparr>]"
proof
  fix srt
  have none: "\<forall>d\<in>set ([] :: InodeDelta list). Type d = Same" by simp
  have same: "\<forall>d\<in>set [\<lparr>Path = ''d/a'', Type = Same\<rparr>, \<lparr>Path = ''d/b'', Type = Same\<rparr>].
      Type d = Same" by simp
  show "GenerateLayers exampleGen srt ''rootfs'' [] None 0
         = Inr [\<lparr>content = replicate 1024 0, closeErr = None\<rparr>]
     \<and> GenerateLayers exampleGen srt ''rootfs''
          [\<lparr>Path = ''d/a'', Type = Same\<rparr>, \<lparr>Path = ''d/b'', Type = Same\<rparr>] None 1500
         = Inr [\<lparr>content = replicate 1024 0, closeErr = None\<rparr>]"
    using empty_diff_is_end_of_archive [OF none, of exampleGen srt "''rootfs''" None 0
        nameBlock rootfs]
      empty_diff_is_end_of_archive [OF same, of exampleGen srt "''rootfs''" None 1500
        nameBlock rootfs]
    unfolding exampleGen_def by blast
qed

subsection \<open>Overlay whiteouts\<close>

lemma splitLast_append: "fst (splitLast p) @ snd (splitLast p) = p"
  by (induction p) (auto split: prod.splits)

lemma splitLast_base: "CHR ''/'' \<notin> set (snd (splitLast p))"
  by (induction p) (auto split: prod.splits)

lemma splitLast_dir: "fst (splitLast p) = [] \<or> last (fst (splitLast p)) = CHR ''/''"
  by (induction p) (auto split: prod.splits)

text \<open>The options of a tar generator stay as \<open>newTarGenerator\<close> got them.\<close>

lemma call_tuple:
  "call_out (out, err, g) = out" "call_err (out, err, g) = err" "call_tg (out, err, g) = g"
  by (simp_all add: call_out_def call_err_def call_tg_def)

lemma AddWhiteout_mapOptions: "mapOptions (call_tg (AddWhiteout enc g p)) = mapOptions g"
  by (simp add: AddWhiteout_def onWriter_parts)

lemma AddOpaqueWhiteout_mapOptions:
  "mapOptions (call_tg (AddOpaqueWhiteout enc g p)) = mapOptions g"
  by (simp add: AddOpaqueWhiteout_def onWriter_parts)

lemma addRegular_mapOptions:
  "mapOptions (call_tg (addRegular enc fs g base disk_path fi)) = mapOptions g"
  by (simp add: addRegular_def Let_def onWriter_parts call_tuple
      split: option.split sum.split)

lemma AddFile_mapOptions:
  "mapOptions (call_tg (AddFile enc fs g tar_path disk_path fi)) = mapOptions g"
  by (simp add: AddFile_def AddWhiteout_mapOptions addRegular_mapOptions onWriter_parts
      call_tuple split: sum.split FileType.split option.split)

text \<open>
  The walk of \<open>GenerateInsertLayer\<close>: the visits are served in order, each in the state
  that the visits before it left, until one returns an error; a visit appends to the
  stream and never takes bytes back.
\<close>

lemma walkFiles_append:
  "walkFiles ops root target s (pre @ post) =
     (case walkFiles ops root target s pre of
        (Some err, s') \<Rightarrow> (Some err, s')
      | (None, s') \<Rightarrow> walkFiles ops root target s' post)"
proof (induction pre arbitrary: s)
  case Nil
  show ?case by simp
next
  case (Cons v pre)
  obtain curPath r where v: "v = (curPath, r)" by (cases v)
  show ?case using Cons.IH
    by (simp add: v Let_def split: sum.split option.split)
qed

lemma walkFiles_cur:
  "\<exists>rest. cur (snd (walkFiles ops root target s visits)) = cur s @ rest"
proof (induction visits arbitrary: s)
  case Nil
  show ?case by simp
next
  case (Cons v visits)
  obtain curPath r where v: "v = (curPath, r)" by (cases v)
  show ?case
  proof (cases r)
    case (Inl err)
    then show ?thesis by (simp add: v)
  next
    case (Inr info)
    let ?c = "tg_AddFile ops (tg s) (path_Join [target, drop (length root) curPath]) curPath info"
    obtain rest where "cur (snd (walkFiles ops root target (wrote s ?c) visits))
        = cur (wrote s ?c) @ rest"
      using Cons.IH by blast
    then show ?thesis using Inr
      by (simp add: v Let_def wrote_def split: option.split)
  qed
qed

lemma walkFiles_mapOptions:
  "mapOptions (tg (snd (walkFiles (tarGen enc fs) root target s visits))) = mapOptions (tg s)"
proof (induction visits arbitrary: s)
  case Nil
  show ?case by simp
next
  case (Cons v visits)
  obtain curPath r where v: "v = (curPath, r)" by (cases v)
  show ?case using Cons.IH
    by (simp add: v Let_def wrote_def tarGen_fields AddFile_mapOptions
        split: sum.split option.split)
qed

lemma insertGoroutine_walk:
  assumes "root \<noteq> []"
  shows "insertGoroutine ops Walk root target opaque mo =
     (if opaque \<and> call_err (tg_AddOpaqueWhiteout ops (tg (startLayer ops mo)) target) \<noteq> None
      then (call_err (tg_AddOpaqueWhiteout ops (tg (startLayer ops mo)) target),
            wrote (startLayer ops mo) (tg_AddOpaqueWhiteout ops (tg (startLayer ops mo)) target))
      else walkFiles ops root target
             (if opaque
              then wrote (startLayer ops mo)
                     (tg_AddOpaqueWhiteout ops (tg (startLayer ops mo)) target)
              else startLayer ops mo)
             (Walk root))"
  using assms by (auto simp add: insertGoroutine_def Let_def)

text \<open>
  Claim C2. Let \<open>GenerateInsertLayer\<close> run with \<^verbatim>\<open>translate_overlay_whiteouts\<close> set, and
  let the walk visit a character device 0:0 after visits that returned no error. If the
  tar writer owes no body to the entry before, the visit writes the padding owed to that
  entry and one header, that of an empty regular file named \<^verbatim>\<open>.wh.\<close> followed by the base
  name, in the directory of the name of the tar path, and the run goes on: the stream up
  to and with the visit is that of the visits before, followed by these bytes. If the tar
  writer is owed a body, it refuses the header, and the run ends there with an error. In
  neither case is a \<open>Char\<close> header or a body written for the device.
\<close>

theorem overlay_whiteout_translated:
  assumes "TranslateOverlayWhiteouts (optOrZero opt)"
    and "CleanPath root \<noteq> []"
    and "Walk (CleanPath root) = pre @ (curPath, Inr fi) # post"
    and "fi_Type fi = CharDevice" and "fi_Major fi = 0" and "fi_Minor fi = 0"
    and "length (CleanPath root) \<le> length curPath"
    and "insertGoroutine (tarGen enc fs) (\<lambda>_. pre) (CleanPath root) target opaque (optOrZero opt)
           = (None, s)"
  shows "\<exists>dir base rest.
       normalise (path_Join [target, drop (length (CleanPath root)) curPath]) False = dir @ base
       \<and> CHR ''/'' \<notin> set base \<and> (dir = [] \<or> last dir = CHR ''/'')
       \<and> hdr_Typeflag (emptyReg (dir @ ''.wh.'' @ base)) = TypeReg
       \<and> hdr_Size (emptyReg (dir @ ''.wh.'' @ base)) = 0
       \<and> (if tw_nb (tw (tg s)) = 0
           then GenerateInsertLayer (tarGen enc fs) CleanPath (\<lambda>_. pre @ [(curPath, Inr fi)])
                    root target opaque opt
                  = \<lparr>content = cur s @ replicate (tw_pad (tw (tg s))) 0
                                 @ enc (emptyReg (dir @ ''.wh.'' @ base)),
                     closeErr = None\<rparr>
                \<and> content (GenerateInsertLayer (tarGen enc fs) CleanPath Walk root target
                             opaque opt)
                  = cur s @ replicate (tw_pad (tw (tg s))) 0
                      @ enc (emptyReg (dir @ ''.wh.'' @ base)) @ rest
           else content (GenerateInsertLayer (tarGen enc fs) CleanPath Walk root target
                           opaque opt) = cur s
                \<and> closeErr (GenerateInsertLayer (tarGen enc fs) CleanPath Walk root target
                               opaque opt) \<noteq> None)"
proof -
  let ?ops = "tarGen enc fs"
  let ?root = "CleanPath root"
  let ?mo = "optOrZero opt"
  let ?start = "startLayer ?ops ?mo"
  let ?opq = "tg_AddOpaqueWhiteout ?ops (tg ?start) target"
  let ?sA = "if opaque then wrote ?start ?opq else ?start"
  let ?tar = "path_Join [target, drop (length ?root) curPath]"
  let ?name = "normalise ?tar False"
  let ?h = "emptyReg (dirPart ?name @ ''.wh.'' @ basename ?name)"
  let ?out = "replicate (tw_pad (tw (tg s))) 0 @ enc ?h"
  let ?c = "tg_AddFile ?ops (tg s) ?tar curPath fi"
  have noerr: "\<not> (opaque \<and> call_err ?opq \<noteq> None)"
    using assms(8) unfolding insertGoroutine_walk [OF assms(2)] by (auto split: if_splits)
  have gor: "insertGoroutine ?ops W ?root target opaque ?mo = walkFiles ?ops ?root target ?sA (W ?root)"
    for W
    unfolding insertGoroutine_walk [OF assms(2)] using noerr by (simp only: if_False)
  have pre: "walkFiles ?ops ?root target ?sA pre = (None, s)"
    using assms(8) unfolding gor .
  have "mapOptions (tg ?sA) = ?mo"
    by (simp add: startLayer_fields tarGen_fields newTarGenerator_def wrote_def
        AddOpaqueWhiteout_mapOptions)
  then have "mapOptions (tg s) = ?mo"
    using walkFiles_mapOptions [of enc fs ?root target ?sA pre] pre by simp
  then have flag: "TranslateOverlayWhiteouts (mapOptions (tg s))"
    using assms(1) by simp
  have c: "?c = (if tw_nb (tw (tg s)) = 0
                 then (?out, None, (tg s)\<lparr>tw := \<lparr>tw_nb = 0, tw_pad = 0\<rparr>\<rparr>)
                 else ([], Some (Cause ''archive/tar: missed writing bytes''), tg s))"
    using flag assms(4) assms(5) assms(6)
    by (simp add: tarGen_fields AddFile_def AddWhiteout_def onWriter_def
        Writer_WriteHeader_def Writer_Flush_def emptyReg_def whiteoutPath_def whPrefix_def
        Let_def)
  have parts: "?name = dirPart ?name @ basename ?name
      \<and> CHR ''/'' \<notin> set (basename ?name)
      \<and> (dirPart ?name = [] \<or> last (dirPart ?name) = CHR ''/'')"
    using splitLast_append [of ?name] splitLast_base [of ?name] splitLast_dir [of ?name]
    by (simp add: dirPart_def basename_def)
  have hdr: "hdr_Typeflag ?h = TypeReg \<and> hdr_Size ?h = 0"
    by (simp add: emptyReg_def)
  show ?thesis
  proof (cases "tw_nb (tw (tg s)) = 0")
    case True
    have cerr: "call_err ?c = None" by (simp add: c True call_tuple)
    have upto: "insertGoroutine ?ops (\<lambda>_. pre @ [(curPath, Inr fi)]) ?root target opaque ?mo
        = (None, wrote s ?c)"
      unfolding gor using assms(7) by (simp add: walkFiles_append pre cerr Let_def)
    have whole: "insertGoroutine ?ops Walk ?root target opaque ?mo
        = walkFiles ?ops ?root target (wrote s ?c) post"
      unfolding gor using assms(7) by (simp add: assms(3) walkFiles_append pre cerr Let_def)
    obtain rest where rest: "cur (snd (walkFiles ?ops ?root target (wrote s ?c) post))
        = cur (wrote s ?c) @ rest"
      using walkFiles_cur by blast
    have cur: "cur (wrote s ?c) = cur s @ ?out"
      by (simp add: wrote_def c True call_tuple)
    have a: "GenerateInsertLayer ?ops CleanPath (\<lambda>_. pre @ [(curPath, Inr fi)]) root target
          opaque opt
        = \<lparr>content = cur s @ ?out, closeErr = None\<rparr>"
      by (simp add: GenerateInsertLayer_def upto cur errors_Wrap_def)
    have b: "content (GenerateInsertLayer ?ops CleanPath Walk root target opaque opt)
        = cur s @ ?out @ rest"
      by (simp add: GenerateInsertLayer_def whole rest cur)
    show ?thesis
      using parts hdr a b True
      by (intro exI [of _ "dirPart ?name"] exI [of _ "basename ?name"] exI [of _ rest]) simp
  next
    case False
    have cerr: "call_err ?c = Some (Cause ''archive/tar: missed writing bytes'')"
      by (simp add: c False call_tuple)
    have whole: "insertGoroutine ?ops Walk ?root target opaque ?mo
        = (Some (Cause ''archive/tar: missed writing bytes''), wrote s ?c)"
      unfolding gor using assms(7) by (simp add: assms(3) walkFiles_append pre cerr Let_def)
    have cur: "cur (wrote s ?c) = cur s"
      by (simp add: wrote_def c False call_tuple)
    have b: "content (GenerateInsertLayer ?ops CleanPath Walk root target opaque opt) = cur s
        \<and> closeErr (GenerateInsertLayer ?ops CleanPath Walk root target opaque opt) \<noteq> None"
      by (simp add: GenerateInsertLayer_def whole cur errors_Wrap_def)
    show ?thesis
      using parts hdr b False
      by (intro exI [of _ "dirPart ?name"] exI [of _ "basename ?name"] exI [of _ "[]"]) simp
  qed
qed

lemma GenerateInsertLayer_walk:
  "GenerateInsertLayer ops CleanPath Walk root target opaque opt
     = GenerateInsertLayer ops CleanPath (\<lambda>_. Walk (CleanPath root)) root target opaque opt"
  by (simp add: GenerateInsertLayer_def insertGoroutine_def)

text \<open>
  The run of the repository's test of the insert layer: the root \<^verbatim>\<open>/dir\<close>, which holds the
  character device \<^verbatim>\<open>test\<close>, inserted at \<^verbatim>\<open>/\<close>. The stream holds the directory entry \<^verbatim>\<open>/\<close>
  and the whiteout \<^verbatim>\<open>.wh.test\<close>, and ends there.
\<close>

theorem overlay_whiteout_translated_witness:
  "GenerateInsertLayer (tarGen nameBlock overlayDir) path_Clean walkDir ''/dir'' ''/'' False
       (Some overlayOptions)
     = \<lparr>content =
          nameBlock \<lparr>hdr_Typeflag = TypeDir, hdr_Name = ''/'', hdr_Linkname = [], hdr_Size = 0,
                     hdr_Mode = 448, hdr_Uid = 0, hdr_Gid = 0, hdr_Uname = [], hdr_Gname = [],
                     hdr_ModTime = 0, hdr_Devmajor = 0, hdr_Devminor = 0, hdr_Xattrs = []\<rparr>
          @ nameBlock (emptyReg ''.wh.test''),
        closeErr = None\<rparr>"
proof -
  let ?g = "newTarGenerator 0 overlayOptions"
  let ?hD = "\<lparr>hdr_Typeflag = TypeDir, hdr_Name = ''/'', hdr_Linkname = [], hdr_Size = 0,
              hdr_Mode = 448, hdr_Uid = 0, hdr_Gid = 0, hdr_Uname = [], hdr_Gname = [],
              hdr_ModTime = 0, hdr_Devmajor = 0, hdr_Devminor = 0, hdr_Xattrs = []\<rparr>"
  let ?t = "\<lparr>sealed = [], cur = nameBlock ?hD, written = 512, tg = ?g\<rparr>"
  have opts: "TranslateOverlayWhiteouts (optOrZero (Some overlayOptions))"
    by (simp add: optOrZero_def overlayOptions_def)
  have root: "path_Clean ''/dir'' \<noteq> []" by (simp add: clean_dir)
  have walk: "walkDir (path_Clean ''/dir'')
      = [(''/dir'', Inr dirInfo)] @ (''/dir/test'', Inr testNode) # []"
    by (simp add: walkDir_def clean_dir)
  have node: "fi_Type testNode = CharDevice" "fi_Major testNode = 0" "fi_Minor testNode = 0"
    by (simp_all add: testNode_def)
  have len: "length (path_Clean ''/dir'') \<le> length ''/dir/test''" by (simp add: clean_dir)
  have dir: "AddFile nameBlock overlayDir ?g ''/'' ''/dir'' dirInfo = (nameBlock ?hD, None, ?g)"
    by (simp add: AddFile_def dirInfo_def baseHeader_def toContainer_def overlayDir_def
        newTarGenerator_def overlayOptions_def zeroMapOptions_def onWriter_def
        Writer_WriteHeader_def Writer_Flush_def normalise_def)
  have before: "insertGoroutine (tarGen nameBlock overlayDir) (\<lambda>_. [(''/dir'', Inr dirInfo)])
      (path_Clean ''/dir'') ''/'' False (optOrZero (Some overlayOptions)) = (None, ?t)"
    using dir join_slash_empty
    by (simp add: insertGoroutine_def clean_dir tarGen_fields startLayer_fields optOrZero_def
        Let_def wrote_def call_tuple u64_def nameBlock_length)
  have nb: "tw_nb (tw (tg ?t)) = 0" by (simp add: newTarGenerator_def)
  note visit = overlay_whiteout_translated [where opt = "Some overlayOptions"
      and CleanPath = path_Clean and root = "''/dir''" and Walk = walkDir
      and pre = "[(''/dir'', Inr dirInfo)]" and curPath = "''/dir/test''" and fi = testNode
      and post = "[]" and enc = nameBlock and fs = overlayDir and target = "''/''"
      and opaque = False and s = ?t, OF opts root walk node len before]
  from visit obtain dir base rest where
    all: "normalise (path_Join [''/'', drop (length (path_Clean ''/dir'')) ''/dir/test'']) False
        = dir @ base
      \<and> CHR ''/'' \<notin> set base \<and> (dir = [] \<or> last dir = CHR ''/'')
      \<and> hdr_Typeflag (emptyReg (dir @ ''.wh.'' @ base)) = TypeReg
      \<and> hdr_Size (emptyReg (dir @ ''.wh.'' @ base)) = 0
      \<and> (if tw_nb (tw (tg ?t)) = 0
          then GenerateInsertLayer (tarGen nameBlock overlayDir) path_Clean
                 (\<lambda>_. [(''/dir'', Inr dirInfo)] @ [(''/dir/test'', Inr testNode)]) ''/dir'' ''/''
                 False (Some overlayOptions)
               = \<lparr>content = cur ?t @ replicate (tw_pad (tw (tg ?t))) 0
                               @ nameBlock (emptyReg (dir @ ''.wh.'' @ base)),
                  closeErr = None\<rparr>
             \<and> content (GenerateInsertLayer (tarGen nameBlock overlayDir) path_Clean walkDir
                          ''/dir'' ''/'' False (Some overlayOptions))
               = cur ?t @ replicate (tw_pad (tw (tg ?t))) 0
                   @ nameBlock (emptyReg (dir @ ''.wh.'' @ base)) @ rest
          else content (GenerateInsertLayer (tarGen nameBlock overlayDir) path_Clean walkDir
                          ''/dir'' ''/'' False (Some overlayOptions)) = cur ?t
             \<and> closeErr (GenerateInsertLayer (tarGen nameBlock overlayDir) path_Clean walkDir
                            ''/dir'' ''/'' False (Some overlayOptions)) \<noteq> None)"
    by (elim exE)
  have name: "normalise (path_Join [''/'', drop (length (path_Clean ''/dir'')) ''/dir/test'']) False
        = dir @ base"
    using all by (elim conjE)
  have slash: "dir = [] \<or> last dir = CHR ''/''"
    using all by (elim conjE)
  have run: "GenerateInsertLayer (tarGen nameBlock overlayDir) path_Clean
        (\<lambda>_. [(''/dir'', Inr dirInfo)] @ [(''/dir/test'', Inr testNode)]) ''/dir'' ''/'' False
        (Some overlayOptions)
      = \<lparr>content = cur ?t @ replicate (tw_pad (tw (tg ?t))) 0
                      @ nameBlock (emptyReg (dir @ ''.wh.'' @ base)),
         closeErr = None\<rparr>"
    using all nb by (elim conjE) (simp only: if_True refl)
  have test: "dir @ base = ''test''"
    using name by (simp add: clean_dir join_slash_test [simplified] normalise_names)
  have "dir = []"
  proof (rule ccontr)
    assume ne: "dir \<noteq> []"
    then have "last dir = CHR ''/''" using slash by simp
    then have "CHR ''/'' \<in> set dir" using ne last_in_set [of dir] by simp
    then have "CHR ''/'' \<in> set (dir @ base)" by simp
    then show False unfolding test by simp
  qed
  then have "dir @ ''.wh.'' @ base = ''.wh.test''" using test by simp
  then have "GenerateInsertLayer (tarGen nameBlock overlayDir) path_Clean
        (\<lambda>_. [(''/dir'', Inr dirInfo)] @ [(''/dir/test'', Inr testNode)]) ''/dir'' ''/'' False
        (Some overlayOptions)
      = \<lparr>content = nameBlock ?hD @ nameBlock (emptyReg ''.wh.test''), closeErr = None\<rparr>"
    using run by (simp add: newTarGenerator_def)
  then show ?thesis
    using GenerateInsertLayer_walk [of "tarGen nameBlock overlayDir" path_Clean walkDir
        "''/dir''" "''/''" False "Some overlayOptions"] walk
    by simp
qed

subsection \<open>The order of whiteouts and additions\<close>

text \<open>
  Claim C1, which the code does not meet. The deltas are ordered by path alone: for a
  whiteout of \<^verbatim>\<open>d/b\<close> and an addition of \<^verbatim>\<open>d/a\<close>, given in this order, the stream holds
  the entry \<^verbatim>\<open>d/a\<close> with its body first and the whiteout \<^verbatim>\<open>d/.wh.b\<close> after it, whatever
  sorter \<^verbatim>\<open>sort.Sort\<close> is.
\<close>

theorem whiteout_emitted_after_addition:
  "GenerateLayers exampleGen srt ''rootfs''
     [\<lparr>Path = ''d/b'', Type = Missing\<rparr>, \<lparr>Path = ''d/a'', Type = Extra\<rparr>] None 0
   = Inr [\<lparr>content =
             nameBlock \<lparr>hdr_Typeflag = TypeReg, hdr_Name = ''d/a'', hdr_Linkname = [],
                        hdr_Size = 5, hdr_Mode = 420, hdr_Uid = 0, hdr_Gid = 0, hdr_Uname = [],
                        hdr_Gname = [], hdr_ModTime = 0, hdr_Devmajor = 0, hdr_Devminor = 0,
                        hdr_Xattrs = []\<rparr>
             @ [104, 101, 108, 108, 111] @ replicate 507 0
             @ nameBlock (emptyReg ''d/.wh.b'') @ replicate 1024 0,
           closeErr = None\<rparr>]"
proof -
  have lstat: "fs_Lstat rootfs ''rootfs/d/a'' = Inr fileA"
    by (simp add: rootfs_def)
  show ?thesis
    using AddFile_a [of nameBlock, unfolded newTarGenerator_def]
    by (simp add: GenerateLayers_def goroutine_def sort_b_a channelOf_def addDelta_def
        tooBig_def startLayer_fields Let_def wrote_def errors_Wrap_def optOrZero_def
        call_out_def call_err_def call_tg_def exampleGen_fields lstat join_rootfs_a
        newTarGenerator_def AddWhiteout_def onWriter_def Writer_WriteHeader_def
        Writer_Flush_def Writer_Close_def whiteoutPath_names emptyReg_Size)
qed

subsection \<open>Errors of the producer\<close>

text \<open>
  What the producer does get right. An error it returns is a cause wrapped with one of
  four context strings: a failed \<open>Lstat\<close> comes back under \<^verbatim>\<open>add file lstat\<close>, a failed
  last close of the tar writer under \<^verbatim>\<open>close tar writer\<close>. The last stream is closed with
  the returned error, wrapped with \<^verbatim>\<open>generate layer\<close>, and without an error only when
  the producer returned none.
\<close>

lemma errors_Wrap_Some: "errors_Wrap err msg = Some e \<Longrightarrow> \<exists>c. e = Wrap c msg"
  by (cases err) (auto simp add: errors_Wrap_def)

lemma addDelta_error_wrapped:
  assumes "fst (addDelta ops mo path maxB s d) = Some e"
  shows "\<exists>c ctx. e = Wrap c ctx
       \<and> ctx \<in> {''add file lstat'', ''generate layer file'', ''generate whiteout layer file''}"
proof (cases "Type d = Modified \<or> Type d = Extra")
  case True
  show ?thesis
  proof (cases "tg_Lstat ops (tg s) (path_Join [path, Path d])")
    case (Inl err)
    then have "e = Wrap err ''add file lstat''"
      using assms True by (simp add: addDelta_def)
    then show ?thesis by blast
  next
    case (Inr fi)
    then have "\<exists>r. errors_Wrap r ''generate layer file'' = Some e"
      using assms True by (auto simp add: addDelta_def Let_def)
    then show ?thesis using errors_Wrap_Some by blast
  qed
next
  case False
  show ?thesis
  proof (cases "Type d = Missing")
    case True
    then have "\<exists>r. errors_Wrap r ''generate whiteout layer file'' = Some e"
      using assms False by (auto simp add: addDelta_def Let_def)
    then show ?thesis using errors_Wrap_Some by blast
  next
    case F: False
    then show ?thesis using assms False by (simp add: addDelta_def)
  qed
qed

lemma produce_error_wrapped:
  "fst (produce ops mo path maxB s ds) = Some e \<Longrightarrow>
     \<exists>c ctx. e = Wrap c ctx
       \<and> ctx \<in> {''add file lstat'', ''generate layer file'', ''generate whiteout layer file'',
                 ''close tar writer''}"
proof (induction ds arbitrary: s)
  case Nil
  then have "\<exists>r. errors_Wrap r ''close tar writer'' = Some e"
    by (auto simp add: Let_def)
  then obtain r where "errors_Wrap r ''close tar writer'' = Some e" ..
  then obtain c where "e = Wrap c ''close tar writer''"
    by (rule errors_Wrap_Some [THEN exE])
  then show ?case by simp
next
  case (Cons d ds)
  show ?case
  proof (cases "fst (addDelta ops mo path maxB s d)")
    case None
    then have "produce ops mo path maxB s (d # ds)
        = produce ops mo path maxB (snd (addDelta ops mo path maxB s d)) ds"
      by (cases "addDelta ops mo path maxB s d") simp
    then have "fst (produce ops mo path maxB (snd (addDelta ops mo path maxB s d)) ds) = Some e"
      using Cons.prems by (simp only:)
    then show ?thesis by (rule Cons.IH)
  next
    case (Some err)
    then have "fst (produce ops mo path maxB s (d # ds)) = Some err"
      by (cases "addDelta ops mo path maxB s d") simp
    then have "e = err" using Cons.prems by (simp only: option.inject)
    then have "\<exists>c ctx. e = Wrap c ctx
        \<and> ctx \<in> {''add file lstat'', ''generate layer file'', ''generate whiteout layer file''}"
      using addDelta_error_wrapped [OF Some] by (simp only:)
    then obtain c ctx where "e = Wrap c ctx"
      and "ctx \<in> {''add file lstat'', ''generate layer file'', ''generate whiteout layer file''}"
      by (elim exE conjE)
    then show ?thesis by (elim insertE emptyE) simp_all
  qed
qed

lemma lstat_error_context:
  assumes "Type d = Modified \<or> Type d = Extra"
    and "tg_Lstat ops (tg s) (path_Join [path, Path d]) = Inl err"
  shows "fst (produce ops mo path maxB s (d # ds)) = Some (Wrap err ''add file lstat'')"
proof -
  have "addDelta ops mo path maxB s d = (Some (Wrap err ''add file lstat''), s)"
    using assms by (simp add: addDelta_def)
  then show ?thesis by simp
qed

lemma close_error_context:
  "call_err (tg_twClose ops (tg s)) = Some err \<Longrightarrow>
     fst (produce ops mo path maxB s []) = Some (Wrap err ''close tar writer'')"
  by (simp add: Let_def errors_Wrap_def)

lemma last_stream_reports_error:
  "closeErr (last (channelOf r)) = errors_Wrap (fst r) ''generate layer''
   \<and> (closeErr (last (channelOf r)) = None \<longleftrightarrow> fst r = None)"
  by (cases "fst r") (simp_all add: channelOf_def errors_Wrap_def)

text \<open>
  Claim C7, which the code does not meet where it seals a layer. With a budget of 1100
  bytes the second whiteout seals the first stream; closing its tar writer fails, the
  result is dropped, and the stream is closed without an error and without the
  end-of-archive marker. The failure of the last close is reported on the last stream.
\<close>

theorem sealed_stream_hides_close_error:
  "GenerateLayers hungUpGen srt ''rootfs''
     [\<lparr>Path = ''a'', Type = Missing\<rparr>, \<lparr>Path = ''b'', Type = Missing\<rparr>] None 1100
   = Inr [\<lparr>content = nameBlock (emptyReg ''.wh.a''), closeErr = None\<rparr>,
          \<lparr>content = nameBlock (emptyReg ''.wh.b''),
           closeErr = Some (Wrap (Wrap (Cause ''io: read/write on closed pipe'')
                                   ''close tar writer'') ''generate layer'')\<rparr>]"
  by (simp add: GenerateLayers_def goroutine_def sort_Sort_distinct channelOf_def addDelta_def
      tooBig_def u64_def startLayer_fields Let_def wrote_def newLayer_def errors_Wrap_def
      optOrZero_def call_out_def call_err_def call_tg_def hungUpGen_fields
      newTarGenerator_def AddWhiteout_def onWriter_def Writer_WriteHeader_def
      Writer_Flush_def whiteoutPath_names nameBlock_length)

section \<open>Properties of the driver and of the compressor\<close>

lemma fold_snoc: "fold (\<lambda>v acc. acc @ [v]) vs acc = acc @ vs"
  by (induction vs arbitrary: acc) simp_all

text \<open>
  Claim C9. The masked paths are the paths of \<^verbatim>\<open>--mask-path\<close> followed by the keys of
  \<^verbatim>\<open>Config.Volumes\<close>, and by nothing when \<^verbatim>\<open>--no-mask-volumes\<close> is set: as a set, the
  union of the two.
\<close>

theorem masked_paths_union:
  "set (maskedPaths ctx config)
     = set (mask_path ctx) \<union> (if no_mask_volumes ctx then {} else fst ` set (Volumes config))
   \<and> maskedPaths ctx config
     = mask_path ctx @ (if no_mask_volumes ctx then [] else map fst (Volumes config))"
  by (simp add: maskedPaths_def fold_snoc)

lemma withClose_reads_eq: "withClose_reads \<lparr>wc_r = rd\<rparr> ns = reads rd ns"
  by (induction ns arbitrary: rd) (simp_all add: withClose_Read_def split: prod.splits)

lemma Read_bytesReader:
  "Read ((bytesReader bs)\<lparr>rd_state := buf\<rparr>) 512 =
     (if buf = [] then ([], Some io_EOF, (bytesReader bs)\<lparr>rd_state := []\<rparr>)
      else (take 512 buf, None, (bytesReader bs)\<lparr>rd_state := drop 512 buf\<rparr>))"
  by (simp add: Read_def bytesReader_def)

lemma ReadAll_bytesReader:
  "(length buf + 511) div 512 < fuel \<Longrightarrow>
     ReadAll fuel \<lparr>wc_r = (bytesReader bs)\<lparr>rd_state := buf\<rparr>\<rparr> acc = Some (Inr (acc @ buf))"
proof (induction fuel arbitrary: buf acc)
  case 0
  then show ?case by simp
next
  case (Suc fuel)
  show ?case
  proof (cases "buf = []")
    case True
    then show ?thesis by (simp add: withClose_Read_def Read_bytesReader)
  next
    case False
    have "(length (drop 512 buf) + 511) div 512 < fuel"
    proof (cases "length buf \<le> 512")
      case True
      have "0 < length buf" using False by simp
      then have "0 < (length buf + 511) div 512" by arith
      then show ?thesis using Suc.prems True by simp
    next
      case F: False
      then have "(length buf + 511) div 512 = Suc ((length buf - 512 + 511) div 512)"
        by arith
      then show ?thesis using Suc.prems by simp
    qed
    then have "ReadAll fuel \<lparr>wc_r = (bytesReader bs)\<lparr>rd_state := drop 512 buf\<rparr>\<rparr> (acc @ take 512 buf)
        = Some (Inr ((acc @ take 512 buf) @ drop 512 buf))"
      by (rule Suc.IH)
    then show ?thesis using False
      by (simp add: withClose_Read_def Read_bytesReader)
  qed
qed

text \<open>
  Claim C8. \<open>Compress\<close> of the no-op compressor never fails and gives a reader whose
  every \<^verbatim>\<open>Read\<close> returns what the same \<^verbatim>\<open>Read\<close> of the input reader returns, and whose
  \<^verbatim>\<open>Close\<close> returns no error; reading all of it over a byte sequence gives that sequence,
  for any fuel above the number of reads needed. \<open>MediaType\<close> of a compressor made with
  \<open>m\<close> is \<open>m\<close>.
\<close>

theorem noop_compressor_identity:
  "(\<exists>wc. Compress (NewNoopCompressor m) rd = Inr wc
       \<and> withClose_Close wc = None
       \<and> (\<forall>ns. withClose_reads wc ns = reads rd ns))
   \<and> (\<exists>wc. Compress (NewNoopCompressor m) (bytesReader bs) = Inr wc
       \<and> (\<forall>k. ReadAll (length bs div 512 + 2 + k) wc [] = Some (Inr bs)))
   \<and> MediaType (NewNoopCompressor m) = m"
proof -
  have "bytesReader bs = (bytesReader bs)\<lparr>rd_state := bs\<rparr>"
    by (simp add: bytesReader_def)
  moreover have "(length bs + 511) div 512 < length bs div 512 + 2 + k" for k
    by arith
  ultimately have "ReadAll (length bs div 512 + 2 + k) \<lparr>wc_r = bytesReader bs\<rparr> [] = Some (Inr bs)" for k
    using ReadAll_bytesReader [of bs "length bs div 512 + 2 + k" bs "[]"] by simp
  then show ?thesis
    by (simp add: Compress_def MediaType_def NewNoopCompressor_def withClose_Close_def
        withClose_reads_eq)
qed

end
